theory Spec2Isabelle
  imports Complex_Main "HOL-Library.Multiset" "HOL-Library.Sublist"
begin

section \<open>Strings\<close>

text \<open>
  Python strings are modelled as \<open>string\<close>. The model covers ASCII text: a character
  outside \<open>A\<close>..\<open>Z\<close> is left alone by \<open>lower\<close>, and only the ASCII white space
  characters count as white space.
\<close>

definition lower_char :: "char \<Rightarrow> char" where
  "lower_char c =
     (let n = (of_char c :: nat) in if 65 \<le> n \<and> n \<le> 90 then char_of (n + 32) else c)"

definition lower :: "string \<Rightarrow> string" where
  "lower s = map lower_char s"

text \<open>\<open>sub in s\<close> on strings: \<open>sub\<close> occurs in \<open>s\<close> as a contiguous block.\<close>

primrec str_in :: "string \<Rightarrow> string \<Rightarrow> bool" where
  "str_in sub [] = (sub = [])"
| "str_in sub (c # cs) = (prefix sub (c # cs) \<or> str_in sub cs)"

definition backslash :: char where
  "backslash = CHR 0x5C"

subsection \<open>String operations of the Python library\<close>

text \<open>White space as \<open>str.split()\<close> and \<open>int\<close> see it, within ASCII.\<close>

definition is_space :: "char \<Rightarrow> bool" where
  "is_space c = (let n = (of_char c :: nat) in (9 \<le> n \<and> n \<le> 13) \<or> (28 \<le> n \<and> n \<le> 32))"

definition is_digit :: "char \<Rightarrow> bool" where
  "is_digit c = (let n = (of_char c :: nat) in 48 \<le> n \<and> n \<le> 57)"

text \<open>
  \<open>s.split()\<close>: the maximal runs of characters that are not white space. The first
  argument is the word being read.
\<close>

fun split_ws_from :: "string \<Rightarrow> string \<Rightarrow> string list" where
  "split_ws_from w [] = (if w = [] then [] else [w])"
| "split_ws_from w (c # cs) =
     (if is_space c then (if w = [] then split_ws_from [] cs else w # split_ws_from [] cs)
      else split_ws_from (w @ [c]) cs)"

definition split_ws :: "string \<Rightarrow> string list" where
  "split_ws s = split_ws_from [] s"

text \<open>\<open>s.split(sep)\<close> for a one-character separator; empty pieces are kept.\<close>

fun split_on :: "char \<Rightarrow> string \<Rightarrow> string list" where
  "split_on sep [] = [[]]"
| "split_on sep (c # cs) =
     (if c = sep then [] # split_on sep cs
      else (let r = split_on sep cs in (c # hd r) # tl r))"

text \<open>
  \<open>int(s)\<close> in base 10: white space around is dropped, a sign may come first, then
  digits, where single underscores may stand between two digits. \<open>None\<close> is \<open>ValueError\<close>.
\<close>

definition strip :: "string \<Rightarrow> string" where
  "strip s = rev (dropWhile is_space (rev (dropWhile is_space s)))"

fun parse_digits :: "bool \<Rightarrow> nat \<Rightarrow> string \<Rightarrow> nat option" where
  "parse_digits after_digit acc [] = (if after_digit then Some acc else None)"
| "parse_digits after_digit acc (c # cs) =
     (if is_digit c then parse_digits True (acc * 10 + (of_char c - 48)) cs
      else if c = CHR ''_'' \<and> after_digit \<and> cs \<noteq> [] \<and> is_digit (hd cs)
        then parse_digits False acc cs
      else None)"

definition py_int :: "string \<Rightarrow> int option" where
  "py_int s =
     (case strip s of
        [] \<Rightarrow> None
      | c # cs \<Rightarrow>
          if c = CHR ''-'' then map_option (\<lambda>n. - int n) (parse_digits False 0 cs)
          else if c = CHR ''+'' then map_option int (parse_digits False 0 cs)
          else map_option int (parse_digits False 0 (c # cs)))"

text \<open>\<open>str(n)\<close> and the format \<open>{n:02d}\<close> for a number that is not negative.\<close>

fun str_nat :: "nat \<Rightarrow> string" where
  "str_nat n = (if n < 10 then [char_of (48 + n)] else str_nat (n div 10) @ [char_of (48 + n mod 10)])"

declare str_nat.simps [simp del]

definition format_02d :: "nat \<Rightarrow> string" where
  "format_02d n = (let s = str_nat n in replicate (2 - length s) CHR ''0'' @ s)"

section \<open>core/external\_links\_manager.py\<close>

record ExternalLink =
  source_workbook :: string
  source_sheet :: string
  source_cell :: string
  target_file :: string
  formula :: string
  link_type :: string

record ExternalFileGroup =
  external_file' :: string
  links :: "ExternalLink list"
  reference_count :: int

text \<open>
  The manager object. \<open>grouped_links\<close> is a Python dict; it is kept as an association
  list in insertion order, the order in which a dict is iterated.
\<close>

record ExternalLinksManager =
  external_links :: "ExternalLink list"
  grouped_links :: "(string \<times> ExternalFileGroup) list"

definition init_manager :: ExternalLinksManager where
  "init_manager = \<lparr>external_links = [], grouped_links = []\<rparr>"

subsection \<open>The Excel object model as the scan reads it\<close>

text \<open>
  Every property read on a COM object can raise. The model has one failure point for each
  \<open>try\<close> block of the source: \<open>None\<close> stands for an object whose properties raise when
  read.
\<close>

record cell =
  HasFormula :: bool
  Formula :: string
  Address :: string

record worksheet =
  ws_Name :: string
  UsedRange :: "cell option list option"
    \<comment> \<open>\<open>None\<close>: a used range that is falsy; cells that raise are \<open>None\<close>\<close>

record workbook =
  wb_Name :: string
  FullName :: string
  LinkSources :: "string list option"
    \<comment> \<open>\<open>None\<close>: the call raises; \<open>Some []\<close>: it returns \<open>None\<close> (no links)\<close>
  Worksheets :: "worksheet option list"

text \<open>\<open>None\<close>: \<open>Dispatch\<close> raises. A workbook that is \<open>None\<close> raises when its name is read.\<close>

type_synonym excel = "workbook option list option"

subsection \<open>Helpers\<close>

definition extract_filename_from_path :: "string \<Rightarrow> string" where
  "extract_filename_from_path file_path =
     (if backslash \<in> set file_path \<or> CHR ''/'' \<in> set file_path
      then last (split_on CHR ''/'' (last (split_on backslash file_path)))
      else file_path)"

definition has_external_reference :: "string \<Rightarrow> bool" where
  "has_external_reference f =
     (CHR ''['' \<in> set f \<and> CHR '']'' \<in> set f \<and>
      list_ex (\<lambda>ext. str_in ext (lower f)) [''.xlsx'', ''.xls'', ''.xlsm''])"

text \<open>
  The pattern \<^verbatim>\<open>\[([^\]]+\.xlsx?m?)\]\<close> under \<open>re.IGNORECASE\<close>. After an opening bracket the
  group can only be the whole run of characters up to the next closing bracket, since no
  character of the group is a closing bracket and one must follow it. The run matches
  when it is a non-empty prefix followed by \<^verbatim>\<open>.xls\<close>, an optional \<open>x\<close> and an optional
  \<open>m\<close>, in any letter case.
\<close>

definition matches_group :: "string \<Rightarrow> bool" where
  "matches_group run =
     list_ex (\<lambda>ext. length ext < length run \<and>
                lower (drop (length run - length ext) run) = ext)
       [''.xls'', ''.xlsx'', ''.xlsm'', ''.xlsxm'']"

text \<open>
  \<open>re.findall\<close>: leftmost matches, not overlapping; the search resumes after the closing
  bracket of a match and at the next character otherwise.
\<close>

function findall :: "string \<Rightarrow> string list" where
  "findall [] = []"
| "findall (c # cs) =
     (if c = CHR ''[''
      then (let run = takeWhile (\<lambda>d. d \<noteq> CHR '']'') cs;
                rest = dropWhile (\<lambda>d. d \<noteq> CHR '']'') cs
            in if rest \<noteq> [] \<and> matches_group run
               then run # findall (tl rest)
               else findall cs)
      else findall cs)"
  by pat_completeness auto
termination
  by (relation "measure length")
     (auto simp: less_Suc_eq_le intro: le_trans [OF diff_le_self length_dropWhile_le])

text \<open>
  \<open>list(set(external_files))\<close>: the order in which a set is iterated is left open by
  Python; the model keeps the last occurrence of each name, in order.
\<close>

definition extract_external_files_from_formula :: "string \<Rightarrow> string list" where
  "extract_external_files_from_formula f =
     remdups (map extract_filename_from_path (findall f))"

primrec is_duplicate_link ::
  "ExternalLink list \<Rightarrow> string \<Rightarrow> string \<Rightarrow> string \<Rightarrow> bool" where
  "is_duplicate_link [] sheet cell_addr tf = False"
| "is_duplicate_link (link # existing) sheet cell_addr tf =
     (if source_sheet link = sheet \<and> source_cell link = cell_addr \<and> target_file link = tf
      then True
      else is_duplicate_link existing sheet cell_addr tf)"

subsection \<open>Grouping\<close>

text \<open>
  \<open>file_groups[link.target_file].append(link)\<close> on a \<open>defaultdict(list)\<close>: a new key goes
  to the end, an existing key keeps its place and its list grows at the end.
\<close>

fun file_groups_append ::
  "(string \<times> ExternalLink list) list \<Rightarrow> ExternalLink \<Rightarrow> (string \<times> ExternalLink list) list" where
  "file_groups_append [] link = [(target_file link, [link])]"
| "file_groups_append ((k, v) # rest) link =
     (if k = target_file link then (k, v @ [link]) # rest
      else (k, v) # file_groups_append rest link)"

definition file_groups_of :: "ExternalLink list \<Rightarrow> (string \<times> ExternalLink list) list" where
  "file_groups_of ls = foldl file_groups_append [] ls"

definition make_groups ::
  "(string \<times> ExternalLink list) list \<Rightarrow> (string \<times> ExternalFileGroup) list" where
  "make_groups fg =
     map (\<lambda>(f, ls). (f, \<lparr>external_file' = f, links = ls, reference_count = int (length ls)\<rparr>)) fg"

definition group_links_by_external_file :: "ExternalLinksManager \<Rightarrow> ExternalLinksManager" where
  "group_links_by_external_file m =
     m\<lparr>grouped_links := make_groups (file_groups_of (external_links m))\<rparr>"

subsection \<open>Searching\<close>

definition link_matches :: "string \<Rightarrow> string \<Rightarrow> ExternalLink \<Rightarrow> bool" where
  "link_matches keyword_lower search_field link =
     (if search_field = ''external_file'' then str_in keyword_lower (lower (target_file link))
      else if search_field = ''formula'' then str_in keyword_lower (lower (formula link))
      else if search_field = ''source_workbook''
        then str_in keyword_lower (lower (source_workbook link))
      else if search_field = ''all''
        then (str_in keyword_lower (lower (target_file link)) \<or>
              str_in keyword_lower (lower (formula link)) \<or>
              str_in keyword_lower (lower (source_workbook link)))
      else False)"

definition search_links :: "ExternalLinksManager \<Rightarrow> string \<Rightarrow> string \<Rightarrow> ExternalLink list" where
  "search_links m keyword search_field =
     (if keyword = [] then external_links m
      else filter (link_matches (lower keyword) search_field) (external_links m))"

definition get_grouped_search_results ::
  "ExternalLinksManager \<Rightarrow> string \<Rightarrow> string \<Rightarrow> (string \<times> ExternalFileGroup) list" where
  "get_grouped_search_results m keyword search_field =
     make_groups (file_groups_of (search_links m keyword search_field))"

subsection \<open>scan\_open\_workbooks\<close>

record statistics =
  total_workbooks :: int
  workbooks_with_links :: int
  total_links :: int
  unique_external_files :: int

text \<open>
  The variables of one scan: the list \<open>self.external_links\<close>, the counter
  \<open>statistics['total_workbooks']\<close> and the two local sets.
\<close>

record scan_state =
  sc_external_links :: "ExternalLink list"
  sc_total_workbooks :: int
  sc_workbooks_with_links :: "string set"
  sc_external_files :: "string set"

text \<open>Method 1: one link for each entry of \<open>LinkSources\<close>.\<close>

definition add_link_source ::
  "string \<Rightarrow> ExternalLink list \<times> string set \<Rightarrow> string \<Rightarrow> ExternalLink list \<times> string set" where
  "add_link_source workbook_name st link_source =
     (let ext_file = extract_filename_from_path link_source
      in (fst st @ [\<lparr>source_workbook = workbook_name, source_sheet = [], source_cell = [],
                      target_file = ext_file, formula = ''LinkSource: '' @ link_source,
                      link_type = ''LinkSource''\<rparr>],
          insert ext_file (snd st)))"

text \<open>Method 2: the body of the loop over the file names found in one formula.\<close>

definition add_formula_link ::
  "string \<Rightarrow> string \<Rightarrow> cell \<Rightarrow> ExternalLink list \<times> string set \<Rightarrow> string \<Rightarrow>
     ExternalLink list \<times> string set" where
  "add_formula_link workbook_name sheet_name c st ext_file =
     (if \<not> is_duplicate_link (fst st) sheet_name (Address c) ext_file
      then (fst st @ [\<lparr>source_workbook = workbook_name, source_sheet = sheet_name,
                        source_cell = Address c, target_file = ext_file,
                        formula = Formula c, link_type = ''Formula''\<rparr>],
            insert ext_file (snd st))
      else st)"

text \<open>One cell; a cell that raises is skipped (\<open>except: continue\<close>).\<close>

definition scan_cell ::
  "string \<Rightarrow> string \<Rightarrow> ExternalLink list \<times> string set \<Rightarrow> cell option \<Rightarrow>
     ExternalLink list \<times> string set" where
  "scan_cell workbook_name sheet_name st co =
     (case co of
        None \<Rightarrow> st
      | Some c \<Rightarrow>
          if HasFormula c \<and> has_external_reference (Formula c)
          then foldl (add_formula_link workbook_name sheet_name c) st
                 (extract_external_files_from_formula (Formula c))
          else st)"

text \<open>
  The loop over the worksheets. A worksheet that raises ends it: the flag is \<open>False\<close>, and
  what was added to \<open>external_files\<close> before stays, since the set is changed in place.
\<close>

fun scan_worksheets ::
  "string \<Rightarrow> ExternalLink list \<times> string set \<Rightarrow> worksheet option list \<Rightarrow>
     bool \<times> ExternalLink list \<times> string set" where
  "scan_worksheets workbook_name st [] = (True, st)"
| "scan_worksheets workbook_name st (None # rest) = (False, st)"
| "scan_worksheets workbook_name st (Some ws # rest) =
     scan_worksheets workbook_name
       (case UsedRange ws of
          None \<Rightarrow> st
        | Some cells \<Rightarrow> foldl (scan_cell workbook_name (ws_Name ws)) st cells)
       rest"

text \<open>
  The links of one workbook: \<open>workbook_links\<close> when the end of the loop body is reached,
  and nothing when the worksheet loop raised (\<open>except: continue\<close> skips the rest of the
  body). The second component is the set \<open>external_files\<close> afterwards.
\<close>

definition scan_workbook_links ::
  "workbook \<Rightarrow> string set \<Rightarrow> bool \<times> ExternalLink list \<times> string set" where
  "scan_workbook_links wb files =
     (let st1 = (case LinkSources wb of
                   None \<Rightarrow> ([], files)
                 | Some link_sources \<Rightarrow> foldl (add_link_source (wb_Name wb)) ([], files) link_sources)
      in scan_worksheets (wb_Name wb) st1 (Worksheets wb))"

definition scan_workbook :: "scan_state \<Rightarrow> workbook \<Rightarrow> scan_state" where
  "scan_workbook st wb =
     (let st' = st\<lparr>sc_total_workbooks := sc_total_workbooks st + 1\<rparr>;
          (finished, workbook_links, files) = scan_workbook_links wb (sc_external_files st)
      in if finished \<and> workbook_links \<noteq> []
         then st'\<lparr>sc_external_links := sc_external_links st @ workbook_links,
                  sc_workbooks_with_links := insert (wb_Name wb) (sc_workbooks_with_links st),
                  sc_external_files := files\<rparr>
         else st'\<lparr>sc_external_files := files\<rparr>)"

text \<open>
  The loop over \<open>excel.Workbooks\<close>. A workbook whose name cannot be read raises out of the
  loop, after the counter was incremented; the flag says whether the loop finished.
\<close>

fun scan_workbooks :: "scan_state \<Rightarrow> workbook option list \<Rightarrow> bool \<times> scan_state" where
  "scan_workbooks st [] = (True, st)"
| "scan_workbooks st (None # rest) =
     (False, st\<lparr>sc_total_workbooks := sc_total_workbooks st + 1\<rparr>)"
| "scan_workbooks st (Some wb # rest) = scan_workbooks (scan_workbook st wb) rest"

definition scan_start :: scan_state where
  "scan_start = \<lparr>sc_external_links = [], sc_total_workbooks = 0,
                  sc_workbooks_with_links = {}, sc_external_files = {}\<rparr>"

text \<open>
  The statistics are completed after the loop, inside the \<open>try\<close>: when the loop raised,
  three of them keep their initial 0.
\<close>

definition scan_result :: "excel \<Rightarrow> ExternalLink list \<times> statistics" where
  "scan_result app =
     (case app of
        None \<Rightarrow> ([], \<lparr>total_workbooks = 0, workbooks_with_links = 0, total_links = 0,
                      unique_external_files = 0\<rparr>)
      | Some wbs \<Rightarrow>
          (let (finished, st) = scan_workbooks scan_start wbs
           in (sc_external_links st,
               if finished
               then \<lparr>total_workbooks = sc_total_workbooks st,
                     workbooks_with_links = int (card (sc_workbooks_with_links st)),
                     total_links = int (length (sc_external_links st)),
                     unique_external_files = int (card (sc_external_files st))\<rparr>
               else \<lparr>total_workbooks = sc_total_workbooks st, workbooks_with_links = 0,
                     total_links = 0, unique_external_files = 0\<rparr>)))"

text \<open>
  The method: the new state of the manager and the returned pair. The stored list is
  replaced before anything is read, and the groups are rebuilt at the end.
\<close>

definition scan_open_workbooks ::
  "ExternalLinksManager \<Rightarrow> excel \<Rightarrow> ExternalLinksManager \<times> ExternalLink list \<times> statistics" where
  "scan_open_workbooks m app =
     (let m0 = m\<lparr>external_links := []\<rparr>;
          (found, stats) = scan_result app;
          m1 = m0\<lparr>external_links := external_links m0 @ found\<rparr>
      in (group_links_by_external_file m1, external_links m1, stats))"

subsection \<open>The read-only methods\<close>

record link_statistics =
  ls_total_links :: int
  ls_unique_external_files :: int
  ls_unique_source_workbooks :: int
  ls_link_sources :: int
  ls_formula_links :: int

definition get_statistics :: "ExternalLinksManager \<Rightarrow> link_statistics" where
  "get_statistics m =
     \<lparr>ls_total_links = int (length (external_links m)),
      ls_unique_external_files = int (card (set (map target_file (external_links m)))),
      ls_unique_source_workbooks = int (card (set (map source_workbook (external_links m)))),
      ls_link_sources =
        int (length (filter (\<lambda>l. link_type l = ''LinkSource'') (external_links m))),
      ls_formula_links =
        int (length (filter (\<lambda>l. link_type l = ''Formula'') (external_links m)))\<rparr>"

subsection \<open>Notions used to state the properties of the links manager\<close>

text \<open>
  The triple compared by \<open>_is_duplicate_link\<close>, the links made from formulas, the names of
  the workbooks that can be read, and what it means for a dictionary of groups to
  partition a list of links by target file.
\<close>

definition faithful_partition ::
  "ExternalLink list \<Rightarrow> (string \<times> ExternalFileGroup) list \<Rightarrow> bool" where
  "faithful_partition input groups =
     (distinct (map fst groups) \<and>
      (\<forall>(f, g) \<in> set groups.
          external_file' g = f \<and> (\<forall>l \<in> set (links g). target_file l = f) \<and>
          links g = filter (\<lambda>l. target_file l = f) input \<and>
          reference_count g = int (length (links g))) \<and>
      mset (concat (map (links \<circ> snd) groups)) = mset input)"

definition link_triple :: "ExternalLink \<Rightarrow> string \<times> string \<times> string" where
  "link_triple l = (source_sheet l, source_cell l, target_file l)"

definition formula_links :: "ExternalLink list \<Rightarrow> ExternalLink list" where
  "formula_links ls = filter (\<lambda>l. link_type l = ''Formula'') ls"

primrec workbook_names :: "workbook option list \<Rightarrow> string list" where
  "workbook_names [] = []"
| "workbook_names (w # ws) =
     (case w of None \<Rightarrow> workbook_names ws | Some wb \<Rightarrow> wb_Name wb # workbook_names ws)"

definition wl_inv :: "string \<Rightarrow> ExternalLink list \<Rightarrow> bool" where
  "wl_inv name wl \<longleftrightarrow>
     distinct (map link_triple (formula_links wl)) \<and> (\<forall>l \<in> set wl. source_workbook l = name)"

definition link_key :: "ExternalLink \<Rightarrow> string \<times> string \<times> string \<times> string" where
  "link_key l = (source_workbook l, link_triple l)"

subsection \<open>Example data for the links manager\<close>

definition demo_cell :: cell where
  "demo_cell = \<lparr>HasFormula = True,
     Formula = ''=[Data.xlsx]S!A1+[Data.xlsx]S!B1+[C:/x/Other.xls]T!A1'', Address = ''$A$1''\<rparr>"

definition demo_workbook :: workbook where
  "demo_workbook = \<lparr>wb_Name = ''Book.xlsx'', FullName = ''C:/w/Book.xlsx'',
     LinkSources = Some [''C:/d/Data.xlsx''],
     Worksheets = [Some \<lparr>ws_Name = ''Sheet1'',
                          UsedRange = Some [Some demo_cell, None, Some demo_cell]\<rparr>]\<rparr>"

definition demo_link :: "string \<Rightarrow> string \<Rightarrow> ExternalLink" where
  "demo_link cell_addr tf = \<lparr>source_workbook = ''Q1.xlsx'', source_sheet = ''Q1'',
     source_cell = cell_addr, target_file = tf, formula = ''=['' @ tf @ '']Q1!A1'',
     link_type = ''Formula''\<rparr>"

definition demo_manager :: ExternalLinksManager where
  "demo_manager = \<lparr>external_links =
       [demo_link ''$A$1'' ''Q1a.xlsx'', demo_link ''$A$2'' ''Q1b.xlsx'',
        demo_link ''$A$3'' ''Q1a.xlsx''],
     grouped_links = []\<rparr>"

section \<open>excel\_session\_manager\_link\_updater.py\<close>

text \<open>
  A \<open>datetime\<close> is the number of microseconds since 0001-01-01 00:00:00, the first
  value of the type; the last one is 9999-12-31 23:59:59.999999, on day 3652059.
\<close>

datatype py_error = OverflowError | OSError | ComError | ValueError

definition datetime_max :: int where
  "datetime_max = 3652059 * 86400000000 - 1"

text \<open>
  \<open>now - timedelta(days=n)\<close>: the \<open>timedelta\<close> takes at most 999999999 days, and the
  difference has to be a \<open>datetime\<close>; both raise \<open>OverflowError\<close> otherwise.
\<close>

definition minus_days :: "int \<Rightarrow> int \<Rightarrow> py_error + int" where
  "minus_days now n =
     (if n < - 999999999 \<or> 999999999 < n then Inl OverflowError
      else (let t = now - n * 86400000000
            in if 0 \<le> t \<and> t \<le> datetime_max then Inr t else Inl OverflowError))"

text \<open>
  The file system as the run sees it: a path that exists has an identity (what
  \<open>os.path.samefile\<close> compares) and a modification time, \<open>None\<close> when reading or
  converting it raises.
\<close>

record file_stat =
  st_ident :: nat
  st_mtime :: "int option"

type_synonym filesystem = "string \<Rightarrow> file_stat option"

definition get_last_modified_date :: "filesystem \<Rightarrow> string \<Rightarrow> int option" where
  "get_last_modified_date fs file_path =
     (case fs file_path of None \<Rightarrow> None | Some st \<Rightarrow> st_mtime st)"

text \<open>\<open>os.path.samefile\<close> calls \<open>os.stat\<close> on both paths and raises when one is missing.\<close>

definition samefile :: "filesystem \<Rightarrow> string \<Rightarrow> string \<Rightarrow> py_error + bool" where
  "samefile fs a b =
     (case fs a of
        None \<Rightarrow> Inl OSError
      | Some sa \<Rightarrow> (case fs b of None \<Rightarrow> Inl OSError | Some sb \<Rightarrow> Inr (st_ident sa = st_ident sb)))"

text \<open>The loop of \<open>is_workbook_open\<close>, and the function with its \<open>except Exception\<close>.\<close>

fun workbooks_samefile :: "filesystem \<Rightarrow> workbook option list \<Rightarrow> string \<Rightarrow> py_error + bool" where
  "workbooks_samefile fs [] file_path = Inr False"
| "workbooks_samefile fs (None # rest) file_path = Inl ComError"
| "workbooks_samefile fs (Some wb # rest) file_path =
     (case samefile fs (FullName wb) file_path of
        Inl e \<Rightarrow> Inl e
      | Inr same \<Rightarrow> if same then Inr True else workbooks_samefile fs rest file_path)"

definition is_workbook_open :: "filesystem \<Rightarrow> workbook option list \<Rightarrow> string \<Rightarrow> bool" where
  "is_workbook_open fs wbs file_path =
     (case workbooks_samefile fs wbs file_path of Inl e \<Rightarrow> False | Inr found \<Rightarrow> found)"

text \<open>The test that puts a link into \<open>updated_links\<close>.\<close>

definition link_is_updated :: "filesystem \<Rightarrow> workbook option list \<Rightarrow> int \<Rightarrow> string \<Rightarrow> bool" where
  "link_is_updated fs wbs threshold_date link =
     (case get_last_modified_date fs link of
        None \<Rightarrow> False
      | Some last_modified \<Rightarrow>
          if last_modified \<ge> threshold_date
          then (if is_workbook_open fs wbs link then False else True)
          else False)"

text \<open>
  What a run does to Excel: the calls of \<open>UpdateLink\<close> (workbook, link name) in order,
  and the two counters of the summary. Log lines and the summary file are left out.
\<close>

record run_state =
  update_calls :: "(string \<times> string) list"
  total_updated :: int

text \<open>
  The calls for the links kept in \<open>updated_links\<close>; \<open>update_ok\<close> tells whether
  \<open>UpdateLink\<close> returns or raises, which only the counter sees.
\<close>

definition update_links ::
  "(string \<Rightarrow> string \<Rightarrow> bool) \<Rightarrow> workbook \<Rightarrow> run_state \<Rightarrow> string list \<Rightarrow> run_state" where
  "update_links update_ok wb st updated_links =
     foldl (\<lambda>s link. \<lparr>update_calls = update_calls s @ [(FullName wb, link)],
                       total_updated = (if update_ok (FullName wb) link
                                        then total_updated s + 1 else total_updated s)\<rparr>)
       st updated_links"

text \<open>One workbook; when \<open>LinkSources\<close> raises the workbook is given up.\<close>

definition process_workbook ::
  "filesystem \<Rightarrow> (string \<Rightarrow> string \<Rightarrow> bool) \<Rightarrow> workbook option list \<Rightarrow> int \<Rightarrow>
     run_state \<Rightarrow> workbook \<Rightarrow> run_state" where
  "process_workbook fs update_ok wbs threshold_date st wb =
     (case LinkSources wb of
        None \<Rightarrow> st
      | Some link_names \<Rightarrow>
          if link_names = [] then st
          else update_links update_ok wb st
                 (filter (link_is_updated fs wbs threshold_date) link_names))"

text \<open>The loop over \<open>excel.Workbooks\<close>; a workbook that cannot be read ends the run.\<close>

fun process_workbooks ::
  "filesystem \<Rightarrow> (string \<Rightarrow> string \<Rightarrow> bool) \<Rightarrow> workbook option list \<Rightarrow> int \<Rightarrow>
     run_state \<Rightarrow> workbook option list \<Rightarrow> run_state" where
  "process_workbooks fs update_ok wbs threshold_date st [] = st"
| "process_workbooks fs update_ok wbs threshold_date st (None # rest) = st"
| "process_workbooks fs update_ok wbs threshold_date st (Some wb # rest) =
     process_workbooks fs update_ok wbs threshold_date
       (process_workbook fs update_ok wbs threshold_date st wb) rest"

definition check_and_update_links ::
  "filesystem \<Rightarrow> (string \<Rightarrow> string \<Rightarrow> bool) \<Rightarrow> int \<Rightarrow> int \<Rightarrow> excel \<Rightarrow> py_error + run_state" where
  "check_and_update_links fs update_ok now CHECK_DAYS app =
     (case app of
        None \<Rightarrow> Inl ComError
      | Some wbs \<Rightarrow>
          (case minus_days now CHECK_DAYS of
             Inl e \<Rightarrow> Inl e
           | Inr threshold_date \<Rightarrow>
               Inr (process_workbooks fs update_ok wbs threshold_date
                      \<lparr>update_calls = [], total_updated = 0\<rparr> wbs)))"

text \<open>The option \<open>CHECK_DAYS\<close>, 14 when it is not given.\<close>

definition run_excel_link_update ::
  "int option \<Rightarrow> filesystem \<Rightarrow> (string \<Rightarrow> string \<Rightarrow> bool) \<Rightarrow> int \<Rightarrow> excel \<Rightarrow>
     py_error + run_state" where
  "run_excel_link_update check_days_option fs update_ok now app =
     check_and_update_links fs update_ok now
       (case check_days_option of None \<Rightarrow> 14 | Some n \<Rightarrow> n) app"

subsection \<open>Notions used to state the properties of a run\<close>

text \<open>
  The target of a link is open when some open workbook is the same file; the paths of the
  open workbooks are comparable when each of them exists; the calls one workbook gives rise to.
\<close>

definition target_is_open :: "filesystem \<Rightarrow> workbook option list \<Rightarrow> string \<Rightarrow> bool" where
  "target_is_open fs wbs file_path \<longleftrightarrow>
     (\<exists>wb \<in> set wbs. case wb of None \<Rightarrow> False
        | Some w \<Rightarrow> samefile fs (FullName w) file_path = Inr True)"

definition paths_comparable :: "filesystem \<Rightarrow> workbook option list \<Rightarrow> bool" where
  "paths_comparable fs wbs \<longleftrightarrow>
     (\<forall>wb \<in> set wbs. case wb of None \<Rightarrow> False | Some w \<Rightarrow> fs (FullName w) \<noteq> None)"

definition calls_of_workbook ::
  "filesystem \<Rightarrow> workbook option list \<Rightarrow> int \<Rightarrow> workbook \<Rightarrow> (string \<times> string) list" where
  "calls_of_workbook fs wbs threshold wb =
     (case LinkSources wb of
        None \<Rightarrow> []
      | Some link_names \<Rightarrow>
          map (Pair (FullName wb)) (filter (link_is_updated fs wbs threshold) link_names))"

subsection \<open>Example: an unsaved workbook next to two saved ones\<close>

definition plain_workbook :: "string \<Rightarrow> string \<Rightarrow> string list \<Rightarrow> workbook" where
  "plain_workbook name full link_names =
     \<lparr>wb_Name = name, FullName = full, LinkSources = Some link_names, Worksheets = []\<rparr>"

definition demo_now :: int where
  "demo_now = 63900000000000000"

definition demo_fs :: filesystem where
  "demo_fs p =
     (if p = ''C:/w/A.xlsx'' then Some \<lparr>st_ident = 1, st_mtime = Some (demo_now - 5)\<rparr>
      else if p = ''C:/w/B.xlsx'' then Some \<lparr>st_ident = 2, st_mtime = Some (demo_now - 7)\<rparr>
      else if p = ''C:/w/Old.xlsx''
        then Some \<lparr>st_ident = 3, st_mtime = Some (demo_now - 15 * 86400000000)\<rparr>
      else None)"

definition demo_saved :: "workbook option list" where
  "demo_saved =
     [Some (plain_workbook ''A.xlsx'' ''C:/w/A.xlsx'' [''C:/w/B.xlsx'', ''C:/w/Old.xlsx'', ''C:/w/Gone.xlsx'']),
      Some (plain_workbook ''B.xlsx'' ''C:/w/B.xlsx'' [])]"

definition demo_unsaved_first :: "workbook option list" where
  "demo_unsaved_first = Some (plain_workbook ''Book1'' ''Book1'' []) # demo_saved"

section \<open>utils/file\_utils.py\<close>

subsection \<open>Dates\<close>

record datetime =
  year :: nat
  month :: nat
  day :: nat
  hour :: nat
  minute :: nat
  second :: nat

definition is_leap :: "int \<Rightarrow> bool" where
  "is_leap y = (y mod 4 = 0 \<and> (y mod 100 \<noteq> 0 \<or> y mod 400 = 0))"

definition days_in_month :: "int \<Rightarrow> int \<Rightarrow> int" where
  "days_in_month y m =
     (if m = 2 then (if is_leap y then 29 else 28)
      else if m = 4 \<or> m = 6 \<or> m = 9 \<or> m = 11 then 30 else 31)"

text \<open>The constructor \<open>datetime(year, month, day, hour, minute)\<close>; \<open>None\<close> is \<open>ValueError\<close>.\<close>

definition make_datetime :: "int \<Rightarrow> int \<Rightarrow> int \<Rightarrow> int \<Rightarrow> int \<Rightarrow> datetime option" where
  "make_datetime y m d h mi =
     (if 1 \<le> y \<and> y \<le> 9999 \<and> 1 \<le> m \<and> m \<le> 12 \<and> 1 \<le> d \<and> d \<le> days_in_month y m \<and>
         0 \<le> h \<and> h \<le> 23 \<and> 0 \<le> mi \<and> mi \<le> 59
      then Some \<lparr>year = nat y, month = nat m, day = nat d, hour = nat h, minute = nat mi,
                 second = 0\<rparr>
      else None)"

subsection \<open>The two functions\<close>

text \<open>
  \<open>mtime_of\<close> is the file system: for a path that exists, the local date and time that
  \<open>datetime.fromtimestamp(os.path.getmtime(path))\<close> gives.
\<close>

definition get_file_mtime_str :: "(string \<Rightarrow> datetime option) \<Rightarrow> string \<Rightarrow> string" where
  "get_file_mtime_str mtime_of path =
     (case mtime_of path of
        Some dt \<Rightarrow>
          str_nat (year dt) @ ''-'' @ format_02d (month dt) @ ''-'' @ format_02d (day dt) @ '' '' @
          format_02d (hour dt) @ '':'' @ format_02d (minute dt) @ '':'' @ format_02d (second dt)
      | None \<Rightarrow> [])"

text \<open>
  Unpacking \<open>map(int, ...)\<close> into three or two names: every piece has to be a number and
  the count has to fit; anything else raises.
\<close>

fun unpack3 :: "int option list \<Rightarrow> (int \<times> int \<times> int) option" where
  "unpack3 [Some a, Some b, Some c] = Some (a, b, c)"
| "unpack3 xs = None"

fun unpack2 :: "int option list \<Rightarrow> (int \<times> int) option" where
  "unpack2 [Some a, Some b] = Some (a, b)"
| "unpack2 xs = None"

text \<open>Every exception inside \<open>parse_mtime\<close> is caught and turned into \<open>None\<close>.\<close>

definition parse_mtime :: "string \<Rightarrow> datetime option" where
  "parse_mtime mtime_str =
     (case split_ws mtime_str of
        date # time_part # others \<Rightarrow>
          (case unpack3 (map py_int (split_on CHR ''/'' date)) of
             None \<Rightarrow> None
           | Some (d, m, y) \<Rightarrow>
               (case unpack2 (map py_int (split_on CHR '':'' time_part)) of
                  None \<Rightarrow> None
                | Some (h, mi) \<Rightarrow> make_datetime y m d h mi))
      | _ \<Rightarrow> None)"

subsection \<open>Example: a file and its time\<close>

definition demo_mtime_of :: "string \<Rightarrow> datetime option" where
  "demo_mtime_of p =
     (if p = ''C:/w/A.xlsx''
      then Some \<lparr>year = 2024, month = 1, day = 5, hour = 13, minute = 4, second = 9\<rparr>
      else None)"

section \<open>core/performance\_monitor.py\<close>

text \<open>
  Floating point numbers (clock readings, durations, percentages) are rationals here, so
  a duration is the exact difference of two readings.
\<close>

record PerformanceMetric =
  metric_name :: string
  metric_value :: rat
  metric_unit :: string
  metric_timestamp :: rat
  metric_category :: string

record OperationTiming =
  operation :: string
  start_time :: rat
  end_time :: "rat option"
  duration :: "rat option"
  success :: bool
  timing_context :: "(string \<times> string) list"

text \<open>
  \<open>collections.deque(maxlen=n)\<close>, kept as the list of its entries, oldest first.
  \<open>append\<close> adds at the right and, when the length then exceeds \<open>maxlen\<close>, drops the
  leftmost entry.
\<close>

definition deque_append :: "nat \<Rightarrow> 'a list \<Rightarrow> 'a \<Rightarrow> 'a list" where
  "deque_append maxlen d x = (let d' = d @ [x] in if length d' > maxlen then tl d' else d')"

record PerformanceMonitor =
  max_history :: nat
  metrics_history :: "PerformanceMetric list"
  operation_timings :: "OperationTiming list"
  active_operations :: "string \<Rightarrow> OperationTiming option"
  cpu_percent :: "rat list"
  memory_percent :: "rat list"
  disk_usage :: "rat list"

text \<open>
  The constructor. \<open>deque(maxlen=n)\<close> raises \<open>ValueError\<close> for a negative \<open>n\<close>. Each of
  the three buffers of \<open>system_metrics\<close> is a \<open>deque(maxlen=100)\<close>.
\<close>

definition system_metric_maxlen :: nat where
  "system_metric_maxlen = 100"

definition default_max_history :: int where
  "default_max_history = 1000"

definition new_monitor :: "int \<Rightarrow> py_error + PerformanceMonitor" where
  "new_monitor n =
     (if n < 0 then Inl ValueError
      else Inr \<lparr>max_history = nat n, metrics_history = [], operation_timings = [],
                active_operations = (\<lambda>k. None), cpu_percent = [], memory_percent = [],
                disk_usage = []\<rparr>)"

text \<open>\<open>record_metric\<close>; \<open>now\<close> is the clock, read when no timestamp is given.\<close>

definition record_metric ::
  "PerformanceMonitor \<Rightarrow> string \<Rightarrow> rat \<Rightarrow> string \<Rightarrow> string \<Rightarrow> rat option \<Rightarrow> rat \<Rightarrow>
     PerformanceMonitor" where
  "record_metric m name v unit_name category timestamp now =
     (let ts = (case timestamp of None \<Rightarrow> now | Some t \<Rightarrow> t);
          metric = \<lparr>metric_name = name, metric_value = v, metric_unit = unit_name,
                     metric_timestamp = ts, metric_category = category\<rparr>
      in m\<lparr>metrics_history := deque_append (max_history m) (metrics_history m) metric\<rparr>)"

text \<open>\<open>int(x)\<close> on a float cuts off the fraction; \<open>str\<close> of an integer.\<close>

definition int_of_float :: "rat \<Rightarrow> int" where
  "int_of_float x = (if 0 \<le> x then \<lfloor>x\<rfloor> else \<lceil>x\<rceil>)"

definition str_int :: "int \<Rightarrow> string" where
  "str_int i = (if i < 0 then CHR ''-'' # str_nat (nat (- i)) else str_nat (nat i))"

text \<open>
  \<open>start_operation\<close> reads the clock twice, for the id and for the start; it returns the
  monitor and the id.
\<close>

definition start_operation ::
  "PerformanceMonitor \<Rightarrow> string \<Rightarrow> (string \<times> string) list \<Rightarrow> rat \<Rightarrow> rat \<Rightarrow>
     PerformanceMonitor \<times> string" where
  "start_operation m op ctx now_id now_start =
     (let operation_id = op @ ''_'' @ str_int (int_of_float (now_id * 1000));
          timing = \<lparr>operation = op, start_time = now_start, end_time = None, duration = None,
                     success = True, timing_context = ctx\<rparr>
      in (m\<lparr>active_operations := (active_operations m)(operation_id \<mapsto> timing)\<rparr>,
          operation_id))"

datatype notification =
    VerySlowOperation string rat
  | SlowOperation string rat
  | ThresholdExceeded "string list"

definition operation_slow :: rat where
  "operation_slow = 5"

definition operation_very_slow :: rat where
  "operation_very_slow = 15"

text \<open>
  \<open>end_operation\<close>: nothing happens for an unknown id. It returns the monitor and the
  event handed to the callbacks, if any.
\<close>

definition end_operation ::
  "PerformanceMonitor \<Rightarrow> string \<Rightarrow> bool \<Rightarrow> rat \<Rightarrow> rat \<Rightarrow>
     PerformanceMonitor \<times> notification option" where
  "end_operation m operation_id ok now_end now_metric =
     (case active_operations m operation_id of
        None \<Rightarrow> (m, None)
      | Some t \<Rightarrow>
          (let d = now_end - start_time t;
               timing = t\<lparr>end_time := Some now_end, duration := Some d, success := ok\<rparr>;
               m1 = m\<lparr>active_operations := (active_operations m)(operation_id := None),
                       operation_timings :=
                         deque_append (max_history m) (operation_timings m) timing\<rparr>;
               m2 = record_metric m1 (''operation_'' @ operation timing) d ''seconds''
                      ''operations'' None now_metric
           in (m2,
               if d \<ge> operation_very_slow then Some (VerySlowOperation (operation timing) d)
               else if d \<ge> operation_slow then Some (SlowOperation (operation timing) d)
               else None)))"

text \<open>The thresholds of \<open>_check_performance_thresholds\<close>, with the kinds of issue.\<close>

definition check_performance_thresholds :: "rat \<Rightarrow> rat \<Rightarrow> notification option" where
  "check_performance_thresholds cpu mem =
     (let issues =
            (if cpu \<ge> 95 then [''Critical CPU usage'']
             else if cpu \<ge> 80 then [''High CPU usage''] else []) @
            (if mem \<ge> 95 then [''Critical memory usage'']
             else if mem \<ge> 80 then [''High memory usage''] else [])
      in if issues \<noteq> [] then Some (ThresholdExceeded issues) else None)"

text \<open>One round of the loop of \<open>_background_monitor\<close>, with the three readings.\<close>

definition background_sample ::
  "PerformanceMonitor \<Rightarrow> rat \<Rightarrow> rat \<Rightarrow> rat \<Rightarrow> rat \<Rightarrow> PerformanceMonitor \<times> notification option" where
  "background_sample m cpu mem disk now =
     (let m1 = m\<lparr>cpu_percent := deque_append system_metric_maxlen (cpu_percent m) cpu,
                  memory_percent := deque_append system_metric_maxlen (memory_percent m) mem,
                  disk_usage := deque_append system_metric_maxlen (disk_usage m) disk\<rparr>;
          m2 = record_metric m1 ''cpu_usage'' cpu ''percent'' ''system'' (Some now) now;
          m3 = record_metric m2 ''memory_usage'' mem ''percent'' ''system'' (Some now) now;
          m4 = record_metric m3 ''disk_usage'' disk ''percent'' ''system'' (Some now) now
      in (m4, check_performance_thresholds cpu mem))"

text \<open>The calls that reach a monitor, with the clock readings they make.\<close>

datatype monitor_call =
    RecordMetric string rat string string "rat option" rat
  | StartOperation string "(string \<times> string) list" rat rat
  | EndOperation string bool rat rat
  | BackgroundSample rat rat rat rat

fun run_call :: "PerformanceMonitor \<Rightarrow> monitor_call \<Rightarrow> PerformanceMonitor" where
  "run_call m (RecordMetric name v unit_name category timestamp now) =
     record_metric m name v unit_name category timestamp now"
| "run_call m (StartOperation op ctx now_id now_start) =
     fst (start_operation m op ctx now_id now_start)"
| "run_call m (EndOperation operation_id ok now_end now_metric) =
     fst (end_operation m operation_id ok now_end now_metric)"
| "run_call m (BackgroundSample cpu mem disk now) = fst (background_sample m cpu mem disk now)"

definition run_calls :: "PerformanceMonitor \<Rightarrow> monitor_call list \<Rightarrow> PerformanceMonitor" where
  "run_calls m calls = foldl run_call m calls"

text \<open>The bounds of the buffers.\<close>

definition buffers_bounded :: "PerformanceMonitor \<Rightarrow> bool" where
  "buffers_bounded m \<longleftrightarrow>
     length (metrics_history m) \<le> max_history m \<and>
     length (operation_timings m) \<le> max_history m \<and>
     length (cpu_percent m) \<le> 100 \<and> length (memory_percent m) \<le> 100 \<and>
     length (disk_usage m) \<le> 100"

subsection \<open>Example: a monitor that keeps two records\<close>

definition demo_calls :: "monitor_call list" where
  "demo_calls =
     [RecordMetric ''a'' 1 ''count'' ''general'' None 1,
      RecordMetric ''b'' 2 ''count'' ''general'' None 2,
      StartOperation ''save'' [] 3 3,
      EndOperation ''save_3000'' True 9 9]"

definition demo_start :: PerformanceMonitor where
  "demo_start = \<lparr>max_history = 2, metrics_history = [], operation_timings = [],
     active_operations = (\<lambda>k. None), cpu_percent = [], memory_percent = [],
     disk_usage = []\<rparr>"

definition demo_timing :: "string \<Rightarrow> OperationTiming" where
  "demo_timing op = \<lparr>operation = op, start_time = 1, end_time = None, duration = None,
     success = True, timing_context = []\<rparr>"

definition demo_full :: PerformanceMonitor where
  "demo_full = \<lparr>max_history = 2, metrics_history = [], operation_timings = [demo_timing ''save'', demo_timing ''load''],
     active_operations = [''scan_1000'' \<mapsto> demo_timing ''scan''],
     cpu_percent = 40 # replicate 99 50, memory_percent = 30 # replicate 99 60,
     disk_usage = 20 # replicate 99 70\<rparr>"

section \<open>core/session\_manager.py\<close>

subsection \<open>Saving a session\<close>

text \<open>
  \<open>str.rfind\<close> for one character, and \<open>os.path.splitext\<close> of the Windows path module: the
  extension starts at the last dot of the last path component, unless that component
  begins with it or consists of dots.
\<close>

definition rfind :: "char \<Rightarrow> string \<Rightarrow> int" where
  "rfind c p =
     (if c \<in> set p then int (length p) - 1 - int (length (takeWhile (\<lambda>d. d \<noteq> c) (rev p)))
      else - 1)"

definition splitext :: "string \<Rightarrow> string \<times> string" where
  "splitext p =
     (let sepIndex = max (rfind backslash p) (rfind CHR ''/'' p);
          dotIndex = rfind CHR ''.'' p
      in if dotIndex > sepIndex \<and>
            list_ex (\<lambda>c. c \<noteq> CHR ''.'')
              (take (nat (dotIndex - sepIndex - 1)) (drop (nat (sepIndex + 1)) p))
         then (take (nat dotIndex) p, drop (nat dotIndex) p)
         else (p, []))"

text \<open>\<open>strftime("%Y-%m-%d_%H-%M-%S")\<close>, for a year of four digits.\<close>

definition strftime_session :: "datetime \<Rightarrow> string" where
  "strftime_session dt =
     str_nat (year dt) @ ''-'' @ format_02d (month dt) @ ''-'' @ format_02d (day dt) @ ''_'' @
     format_02d (hour dt) @ ''-'' @ format_02d (minute dt) @ ''-'' @ format_02d (second dt)"

text \<open>
  A selected workbook is the tuple (name, path, sheet, cell). A spreadsheet file is the
  list of the rows of its active sheet, each row a list of cell values.
\<close>

type_synonym selected_workbook = "string \<times> string \<times> string \<times> string"

datatype message_box = ShowInfo string | ShowError string | ShowWarning string

record save_result =
  returned :: "string option"
  written :: "(string \<times> string list list) option"
  shown :: "message_box option"

definition session_header :: "string list" where
  "session_header = [''File Path'', ''Sheet Name'', ''Cell Address'']"

definition session_rows :: "selected_workbook list \<Rightarrow> string list list" where
  "session_rows selected_workbooks =
     session_header # map (\<lambda>(name, path, sheet, cell_addr). [path, sheet, cell_addr]) selected_workbooks"

text \<open>
  \<open>_save_session_impl\<close>. \<open>file_path\<close> is what the file dialog returns, empty when the user
  cancels; \<open>now\<close> is the clock; \<open>save_error\<close> tells for a path whether \<open>wb.save\<close> raises
  there, and with what text.
\<close>

definition save_session_impl ::
  "selected_workbook list \<Rightarrow> string \<Rightarrow> datetime \<Rightarrow> (string \<Rightarrow> string option) \<Rightarrow> save_result" where
  "save_session_impl selected_workbooks file_path now save_error =
     (if file_path = [] then \<lparr>returned = None, written = None, shown = None\<rparr>
      else (let timestamp = strftime_session now;
                (base, ext) = splitext file_path;
                file_path_with_ts = base @ ''_'' @ timestamp @ ext
            in case save_error file_path_with_ts of
                 None \<Rightarrow>
                   \<lparr>returned = Some file_path_with_ts,
                    written = Some (file_path_with_ts, session_rows selected_workbooks),
                    shown = Some (ShowInfo (''Session saved at:'' @ [CHR 0x0A] @ file_path_with_ts))\<rparr>
               | Some e \<Rightarrow>
                   \<lparr>returned = None, written = None,
                    shown = Some (ShowError (''Failed to save session:'' @ [CHR 0x0A] @ e))\<rparr>))"

text \<open>
  \<open>save_session\<close>, with the bookkeeping in the performance monitor around the call. The
  four rationals are the clock readings of \<open>start_operation\<close> and \<open>end_operation\<close>.
\<close>

definition save_session ::
  "PerformanceMonitor \<Rightarrow> selected_workbook list \<Rightarrow> string \<Rightarrow> datetime \<Rightarrow>
     (string \<Rightarrow> string option) \<Rightarrow> rat \<Rightarrow> rat \<Rightarrow> rat \<Rightarrow> rat \<Rightarrow> PerformanceMonitor \<times> save_result" where
  "save_session monitor selected_workbooks file_path now save_error t1 t2 t3 t4 =
     (if selected_workbooks = []
      then (monitor, \<lparr>returned = None, written = None, shown = None\<rparr>)
      else (let (monitor1, op_id) =
                  start_operation monitor ''save_session''
                    [(''workbook_count'', str_nat (length selected_workbooks))] t1 t2;
                result = save_session_impl selected_workbooks file_path now save_error;
                monitor2 = fst (end_operation monitor1 op_id True t3 t4)
            in (monitor2, result)))"

subsection \<open>Loading a session\<close>

text \<open>
  The rows of a session file are lists of cell values as the spreadsheet library gives
  them: text, numbers, dates or \<open>None\<close>. The model is given, for such a value, whether it
  is truthy (\<open>truthy\<close>) and what \<open>os.path.exists\<close> does on it (\<open>path_exists\<close>: an
  exception, or the answer).
\<close>

datatype 'v load_outcome =
    WarnCloseOpenFiles
  | NoSessionFile
  | ErrorReadingSession
  | WarnNoValidPaths
  | SelectionCancelled
  | LoadRows "'v list list"

text \<open>\<open>[path for path in all_file_paths if os.path.exists(path)]\<close>, which can raise.\<close>

fun existing_paths :: "('v \<Rightarrow> py_error + bool) \<Rightarrow> 'v list \<Rightarrow> py_error + 'v list" where
  "existing_paths path_exists [] = Inr []"
| "existing_paths path_exists (p # ps) =
     (case path_exists p of
        Inl e \<Rightarrow> Inl e
      | Inr found \<Rightarrow>
          (case existing_paths path_exists ps of
             Inl e \<Rightarrow> Inl e
           | Inr rest \<Rightarrow> Inr (if found then p # rest else rest)))"

definition all_file_paths :: "('v \<Rightarrow> bool) \<Rightarrow> 'v list list \<Rightarrow> 'v list" where
  "all_file_paths truthy rows = map hd (filter (\<lambda>r. r \<noteq> [] \<and> truthy (hd r)) rows)"

definition valid_file_paths ::
  "('v \<Rightarrow> bool) \<Rightarrow> ('v \<Rightarrow> py_error + bool) \<Rightarrow> 'v list list \<Rightarrow> py_error + 'v list" where
  "valid_file_paths truthy path_exists rows =
     existing_paths path_exists (all_file_paths truthy rows)"

text \<open>
  \<open>load_session\<close> up to the start of the loader thread. \<open>current_files\<close> are the names of
  the workbooks open now; \<open>file_path\<close> is the answer of the file dialog and \<open>file_exists\<close>
  whether that path exists; \<open>session_rows_read\<close> are the rows from the second row on,
  \<open>None\<close> when the file cannot be read; \<open>dialog\<close> is the selection dialog, from the paths
  offered to its result and the selected paths.
\<close>

definition load_session ::
  "string list \<Rightarrow> string \<Rightarrow> bool \<Rightarrow> 'v list list option \<Rightarrow> ('v \<Rightarrow> bool) \<Rightarrow>
     ('v \<Rightarrow> py_error + bool) \<Rightarrow> ('v list \<Rightarrow> string \<times> 'v list) \<Rightarrow> 'v load_outcome" where
  "load_session current_files file_path file_exists session_rows_read truthy path_exists dialog =
     (if current_files \<noteq> [] then WarnCloseOpenFiles
      else if file_path = [] \<or> \<not> file_exists then NoSessionFile
      else (case session_rows_read of
              None \<Rightarrow> ErrorReadingSession
            | Some rows \<Rightarrow>
                (case valid_file_paths truthy path_exists rows of
                   Inl e \<Rightarrow> ErrorReadingSession
                 | Inr valid \<Rightarrow>
                     if valid = [] then WarnNoValidPaths
                     else (let (result, selected_files) = dialog valid
                           in if result \<noteq> ''ok'' \<or> selected_files = [] then SelectionCancelled
                              else LoadRows (filter (\<lambda>r. r \<noteq> [] \<and> truthy (hd r) \<and>
                                                          hd r \<in> set selected_files) rows)))))"

text \<open>
  The paths that the loader thread passes to \<open>Workbooks.Open\<close>, one for each selected row
  in order; the thread is started only with rows to load.
\<close>

definition open_attempts :: "'v load_outcome \<Rightarrow> 'v list" where
  "open_attempts outcome = (case outcome of LoadRows rows \<Rightarrow> map hd rows | _ \<Rightarrow> [])"

text \<open>A row passes the validation: its first cell is truthy and names a path that exists.\<close>

definition row_is_valid :: "('v \<Rightarrow> bool) \<Rightarrow> ('v \<Rightarrow> py_error + bool) \<Rightarrow> 'v list \<Rightarrow> bool" where
  "row_is_valid truthy path_exists r \<longleftrightarrow> r \<noteq> [] \<and> truthy (hd r) \<and> path_exists (hd r) = Inr True"

subsection \<open>Example: a session of two workbooks\<close>

definition demo_selected :: "selected_workbook list" where
  "demo_selected =
     [(''A.xlsx'', ''C:/w/A.xlsx'', ''Sheet1'', ''$A$1''),
      (''B.xlsx'', ''C:/w/B.xlsx'', ''Data'', ''$C$7'')]"

definition demo_clock :: datetime where
  "demo_clock = \<lparr>year = 2024, month = 1, day = 5, hour = 13, minute = 4, second = 9\<rparr>"

definition demo_session_rows :: "string list list" where
  "demo_session_rows =
     [[''C:/w/A.xlsx'', ''Sheet1'', ''$A$1''], [[], ''Sheet2'', ''$B$2''],
      [''C:/w/Gone.xlsx'', ''Data'', ''$C$7''], [''C:/w/B.xlsx'', ''!!'', ''no cell'', ''extra'']]"

definition demo_exists :: "string \<Rightarrow> py_error + bool" where
  "demo_exists p = Inr (p = ''C:/w/A.xlsx'' \<or> p = ''C:/w/B.xlsx'')"

definition demo_truthy :: "string \<Rightarrow> bool" where
  "demo_truthy s = (s \<noteq> [])"

definition demo_select_all :: "string list \<Rightarrow> string \<times> string list" where
  "demo_select_all offered = (''ok'', offered)"

definition demo_stale_rows :: "string list list" where
  "demo_stale_rows = [[[], ''Sheet2'', ''$B$2''], [''C:/w/Gone.xlsx'', ''Data'', ''$C$7'']]"

section \<open>core/excel\_manager.py\<close>

text \<open>
  What a save run does is recorded as a list of events: the calls of \<open>Save\<close> and \<open>Close\<close>
  on a workbook, the calls of \<open>time.sleep\<close> with the seconds, and the lines printed. The
  line with the time used depends on the clock only and is one event.
\<close>

datatype com_event =
    Save string
  | Close string
  | Sleep rat
  | Print string
  | UsedTime

text \<open>
  Excel as the run meets it. The \<open>k\<close>-th call of \<open>Save\<close> in a run returns
  (\<open>None\<close>) or raises with a text, and so for \<open>Close\<close>; the file system after \<open>k\<close>
  calls of \<open>Save\<close> gives the modification times; \<open>Dispatch\<close> may raise.
\<close>

record excel_env =
  dispatch_error :: "string option"
  save_outcome :: "nat \<Rightarrow> string option"
  close_outcome :: "nat \<Rightarrow> string option"
  mtime_after_saves :: "nat \<Rightarrow> string \<Rightarrow> datetime option"

text \<open>
  The state of a run: the events so far, the number of calls of \<open>Save\<close> and \<open>Close\<close>
  made, and the collection \<open>excel.Workbooks\<close>, each entry the name of a workbook
  (\<open>Inr\<close>) or the text of the exception that reading its name raises (\<open>Inl\<close>).
\<close>

record excel_run =
  events :: "com_event list"
  saves :: nat
  closes :: nat
  workbooks :: "(string + string) list"

definition emit :: "com_event list \<Rightarrow> excel_run \<Rightarrow> excel_run" where
  "emit evs st = st\<lparr>events := events st @ evs\<rparr>"

text \<open>
  The search \<open>for workbook in excel.Workbooks: if workbook.Name == name\<close>: whether a
  workbook of exactly this name is found, or the exception met before.
\<close>

fun find_workbook :: "(string + string) list \<Rightarrow> string \<Rightarrow> string + bool" where
  "find_workbook [] name = Inr False"
| "find_workbook (Inl e # rest) name = Inl e"
| "find_workbook (Inr n # rest) name = (if n = name then Inr True else find_workbook rest name)"

definition max_retries :: nat where
  "max_retries = 3"

definition retry_message :: "nat \<Rightarrow> string" where
  "retry_message attempt = ''  Save attempt '' @ str_nat (attempt + 1) @ '' failed, retrying...''"

text \<open>
  The loop \<open>for attempt in range(max_retries)\<close> around \<open>wb.Save()\<close>, over the attempts
  still to make. The result is the state and the exception that leaves the loop, if any.
\<close>

fun save_attempts ::
  "excel_env \<Rightarrow> string \<Rightarrow> nat list \<Rightarrow> excel_run \<Rightarrow> excel_run \<times> string option" where
  "save_attempts env name [] st = (st, None)"
| "save_attempts env name (attempt # rest) st =
     (let st1 = (emit [Save name] st)\<lparr>saves := saves st + 1\<rparr>
      in case save_outcome env (saves st) of
           None \<Rightarrow> (st1, None)
         | Some e \<Rightarrow>
             if attempt < max_retries - 1
             then save_attempts env name rest
                    (emit [Print (retry_message attempt), Sleep (1 / 10)] st1)
             else (st1, Some e))"

definition save_with_retry :: "excel_env \<Rightarrow> string \<Rightarrow> excel_run \<Rightarrow> excel_run \<times> string option" where
  "save_with_retry env name st = save_attempts env name [0..<max_retries] st"

definition mtime_or_unknown :: "excel_env \<Rightarrow> excel_run \<Rightarrow> string \<Rightarrow> string" where
  "mtime_or_unknown env st path =
     (if path \<noteq> [] then get_file_mtime_str (mtime_after_saves env (saves st)) path
      else ''Unknown'')"

definition progress :: "nat \<Rightarrow> nat \<Rightarrow> string" where
  "progress idx total_count = ''('' @ str_nat idx @ ''/'' @ str_nat total_count @ '')''"

definition separator :: string where
  "separator = replicate 80 CHR ''-''"

definition quoted :: "string \<Rightarrow> string" where
  "quoted s = [CHR 0x27] @ s @ [CHR 0x27]"

text \<open>The body of the loop of \<open>_save_workbooks_impl\<close> for one selected workbook.\<close>

definition save_workbook ::
  "excel_env \<Rightarrow> nat \<Rightarrow> nat \<Rightarrow> selected_workbook \<Rightarrow> excel_run \<Rightarrow> excel_run" where
  "save_workbook env total_count idx selected st =
     (case selected of (name, path, sheet, cell_addr) \<Rightarrow>
       (let mtime_before = mtime_or_unknown env st path;
            st1 = emit [Print (progress idx total_count @ '' Saving: '' @ name),
                        Print (''  File last modified before save: '' @ mtime_before)] st;
            failed = (\<lambda>s e. emit [Print (''  '' @ progress idx total_count @ '' Failed to save: '' @
                                          name @ '' ('' @ e @ '')'')] s);
            st2 = (case find_workbook (workbooks st1) name of
                     Inl e \<Rightarrow> failed st1 e
                   | Inr False \<Rightarrow>
                       emit [Print (''  Workbook '' @ quoted name @ '' not found in open workbooks'')] st1
                   | Inr True \<Rightarrow>
                       (case save_with_retry env name st1 of
                          (s, Some e) \<Rightarrow> failed s e
                        | (s, None) \<Rightarrow>
                            (let mtime_after = mtime_or_unknown env s path
                             in emit [Print (''  File last modified after save: '' @ mtime_after),
                                      Print (''  '' @ progress idx total_count @ '' Saved: '' @ name @
                                        (if mtime_before \<noteq> mtime_after
                                         then '' [SUCCESS] (File timestamp updated)''
                                         else '' [WARNING] (File timestamp unchanged)''))] s)))
        in emit [UsedTime, Print separator] st2))"

text \<open>The same for \<open>_save_and_close_impl\<close>; a closed workbook leaves the collection.\<close>

definition save_and_close_workbook ::
  "excel_env \<Rightarrow> nat \<Rightarrow> nat \<Rightarrow> selected_workbook \<Rightarrow> excel_run \<Rightarrow> excel_run" where
  "save_and_close_workbook env total_count idx selected st =
     (case selected of (name, path, sheet, cell_addr) \<Rightarrow>
       (let mtime_before = mtime_or_unknown env st path;
            st1 = emit [Print (progress idx total_count @ '' Saving and closing: '' @ name),
                        Print (''  File last modified before save: '' @ mtime_before)] st;
            failed = (\<lambda>s e. emit [Print (''  '' @ progress idx total_count @ '' Failed to save/close: '' @
                                          name @ '' ('' @ e @ '')'')] s);
            st2 = (case find_workbook (workbooks st1) name of
                     Inl e \<Rightarrow> failed st1 e
                   | Inr False \<Rightarrow>
                       emit [Print (''  Workbook '' @ quoted name @ '' not found in open workbooks'')] st1
                   | Inr True \<Rightarrow>
                       (case save_with_retry env name st1 of
                          (s, Some e) \<Rightarrow> failed s e
                        | (s, None) \<Rightarrow>
                            (let mtime_after = mtime_or_unknown env s path;
                                 s1 = emit [Print (''  File last modified after save: '' @ mtime_after),
                                            Close name] s;
                                 s2 = s1\<lparr>closes := closes s1 + 1\<rparr>
                             in case close_outcome env (closes s) of
                                  Some e \<Rightarrow> failed s2 e
                                | None \<Rightarrow>
                                    emit [Print (''  '' @ progress idx total_count @ '' Saved and closed: '' @ name @
                                        (if mtime_before \<noteq> mtime_after
                                         then '' [SUCCESS] (File timestamp updated)''
                                         else '' [WARNING] (File timestamp unchanged)''))]
                                      (s2\<lparr>workbooks := remove1 (Inr name) (workbooks s2)\<rparr>))))
        in emit [UsedTime, Print separator] st2))"

text \<open>\<open>enumerate(selected_workbooks, 1)\<close> and the loop over it.\<close>

fun for_each_workbook ::
  "(nat \<Rightarrow> selected_workbook \<Rightarrow> excel_run \<Rightarrow> excel_run) \<Rightarrow> nat \<Rightarrow> selected_workbook list \<Rightarrow>
     excel_run \<Rightarrow> excel_run" where
  "for_each_workbook body idx [] st = st"
| "for_each_workbook body idx (selected # rest) st =
     for_each_workbook body (Suc idx) rest (body idx selected st)"

definition save_workbooks_impl ::
  "excel_env \<Rightarrow> selected_workbook list \<Rightarrow> excel_run \<Rightarrow> excel_run" where
  "save_workbooks_impl env selected_workbooks st =
     (case dispatch_error env of
        Some e \<Rightarrow> emit [Print (''Error during save operation: '' @ e)] st
      | None \<Rightarrow>
          (let total_count = length selected_workbooks;
               st1 = emit [Print (''Saving '' @ str_nat total_count @ '' selected file(s)''),
                           Print separator] st;
               st2 = for_each_workbook (save_workbook env total_count) 1 selected_workbooks st1
           in emit [Print (''Save operation completed. Total: '' @ str_nat total_count)] st2))"

definition save_and_close_impl ::
  "excel_env \<Rightarrow> selected_workbook list \<Rightarrow> excel_run \<Rightarrow> excel_run" where
  "save_and_close_impl env selected_workbooks st =
     (case dispatch_error env of
        Some e \<Rightarrow> emit [Print (''Error during save and close operation: '' @ e)] st
      | None \<Rightarrow>
          (let total_count = length selected_workbooks;
               st1 = emit [Print (''Saving and closing '' @ str_nat total_count @ '' selected file(s)''),
                           Print separator] st;
               st2 = for_each_workbook (save_and_close_workbook env total_count) 1 selected_workbooks st1
           in emit [Print (''Save and close operation completed. Total: '' @ str_nat total_count)] st2))"

subsection \<open>The retry discipline, as a specification\<close>

text \<open>
  At most three attempts, a sleep of 0.1 seconds after each failed attempt but the last,
  no attempt after a success, and the exception of the third attempt when all three
  fail: the events and the exception, from the outcomes of the calls \<open>k\<close>, \<open>k + 1\<close>
  and \<open>k + 2\<close> of \<open>Save\<close>.
\<close>

definition retry_discipline ::
  "(nat \<Rightarrow> string option) \<Rightarrow> string \<Rightarrow> nat \<Rightarrow> com_event list \<times> string option" where
  "retry_discipline outcome name k =
     (case outcome k of
        None \<Rightarrow> ([Save name], None)
      | Some e1 \<Rightarrow>
          (case outcome (k + 1) of
             None \<Rightarrow>
               ([Save name, Print (retry_message 0), Sleep (1 / 10), Save name], None)
           | Some e2 \<Rightarrow>
               ([Save name, Print (retry_message 0), Sleep (1 / 10),
                 Save name, Print (retry_message 1), Sleep (1 / 10), Save name],
                outcome (k + 2))))"

text \<open>The calls among the events: everything but the printed lines.\<close>

fun is_call :: "com_event \<Rightarrow> bool" where
  "is_call (Print line) = False"
| "is_call UsedTime = False"
| "is_call ev = True"

fun is_save :: "com_event \<Rightarrow> bool" where
  "is_save (Save name) = True"
| "is_save ev = False"

fun is_sleep :: "com_event \<Rightarrow> bool" where
  "is_sleep (Sleep seconds) = True"
| "is_sleep ev = False"

subsection \<open>Example: a workbook that saves at the third attempt, and one that never does\<close>

definition demo_env :: excel_env where
  "demo_env = \<lparr>dispatch_error = None,
     save_outcome = (\<lambda>k. if k = 2 then None else Some ''busy''),
     close_outcome = (\<lambda>k. None),
     mtime_after_saves = (\<lambda>k p. None)\<rparr>"

definition demo_env_never :: excel_env where
  "demo_env_never = demo_env\<lparr>save_outcome := (\<lambda>k. Some ''locked'')\<rparr>"

definition demo_run_start :: excel_run where
  "demo_run_start = \<lparr>events = [], saves = 0, closes = 0,
     workbooks = [Inr ''A.xlsx'', Inr ''B.xlsx'']\<rparr>"

section \<open>Properties\<close>

subsection \<open>Grouping by target file\<close>

lemma fga_keys: "fst ` set (file_groups_append fg l) = insert (target_file l) (fst ` set fg)"
  by (induction fg l rule: file_groups_append.induct) auto

lemma fga_distinct:
  "distinct (map fst fg) \<Longrightarrow> distinct (map fst (file_groups_append fg l))"
proof (induction fg l rule: file_groups_append.induct)
  case (1 link)
  then show ?case by simp
next
  case (2 k v rest link)
  then show ?case
    using fga_keys [of rest link] by (auto simp: image_iff)
qed

lemma fga_mset:
  "mset (concat (map snd (file_groups_append fg l))) = mset (concat (map snd fg)) + {#l#}"
  by (induction fg l rule: file_groups_append.induct) auto

lemma fga_member:
  "(k, v) \<in> set (file_groups_append fg l) \<Longrightarrow> distinct (map fst fg) \<Longrightarrow>
     (k = target_file l \<and> ((v = [l] \<and> k \<notin> fst ` set fg) \<or> (\<exists>v0. (k, v0) \<in> set fg \<and> v = v0 @ [l])))
     \<or> (k \<noteq> target_file l \<and> (k, v) \<in> set fg)"
  by (induction fg l rule: file_groups_append.induct) (force split: if_splits simp: image_iff)+

lemma fgo_snoc: "file_groups_of (ls @ [l]) = file_groups_append (file_groups_of ls) l"
  by (simp add: file_groups_of_def)

lemma fgo_keys: "fst ` set (file_groups_of ls) = target_file ` set ls"
  by (induction ls rule: rev_induct) (auto simp: fgo_snoc fga_keys file_groups_of_def)

lemma fgo_distinct: "distinct (map fst (file_groups_of ls))"
  by (induction ls rule: rev_induct) (auto simp: fgo_snoc fga_distinct file_groups_of_def)

lemma fgo_mset: "mset (concat (map snd (file_groups_of ls))) = mset ls"
  by (induction ls rule: rev_induct) (auto simp: fgo_snoc fga_mset file_groups_of_def)

lemma fgo_member:
  "(k, v) \<in> set (file_groups_of ls) \<Longrightarrow> v = filter (\<lambda>l. target_file l = k) ls"
proof (induction ls arbitrary: k v rule: rev_induct)
  case Nil
  then show ?case by (simp add: file_groups_of_def)
next
  case (snoc l ls)
  from snoc.prems have "(k, v) \<in> set (file_groups_append (file_groups_of ls) l)"
    by (simp add: fgo_snoc)
  from fga_member [OF this fgo_distinct] show ?case
  proof (elim disjE conjE exE)
    assume k: "k = target_file l" and v: "v = [l]" and "k \<notin> fst ` set (file_groups_of ls)"
    then have "k \<notin> target_file ` set ls" by (simp add: fgo_keys)
    then have "filter (\<lambda>l. target_file l = k) ls = []"
      by (auto simp: filter_empty_conv)
    with k v show ?thesis by simp
  next
    fix v0
    assume k: "k = target_file l" and "(k, v0) \<in> set (file_groups_of ls)" and v: "v = v0 @ [l]"
    with snoc.IH show ?thesis by simp
  next
    assume "k \<noteq> target_file l" and "(k, v) \<in> set (file_groups_of ls)"
    with snoc.IH show ?thesis by simp
  qed
qed

lemma make_groups_keys: "map fst (make_groups fg) = map fst fg"
  by (simp add: make_groups_def case_prod_beta)

lemma make_groups_links: "map (links \<circ> snd) (make_groups fg) = map snd fg"
  by (simp add: make_groups_def case_prod_beta)

lemma make_groups_member:
  "(f, g) \<in> set (make_groups fg) \<Longrightarrow>
     external_file' g = f \<and> reference_count g = int (length (links g)) \<and> (f, links g) \<in> set fg"
  by (auto simp: make_groups_def)

lemma faithful_make_groups: "faithful_partition ls (make_groups (file_groups_of ls))"
  unfolding faithful_partition_def
proof (intro conjI)
  show "distinct (map fst (make_groups (file_groups_of ls)))"
    by (simp add: make_groups_keys fgo_distinct)
  show "mset (concat (map (links \<circ> snd) (make_groups (file_groups_of ls)))) = mset ls"
    by (simp only: make_groups_links fgo_mset)
  show "\<forall>(f, g) \<in> set (make_groups (file_groups_of ls)).
          external_file' g = f \<and> (\<forall>l \<in> set (links g). target_file l = f) \<and>
          links g = filter (\<lambda>l. target_file l = f) ls \<and>
          reference_count g = int (length (links g))"
  proof (clarify)
    fix f g assume "(f, g) \<in> set (make_groups (file_groups_of ls))"
    from make_groups_member [OF this]
    have 1: "external_file' g = f" and 2: "reference_count g = int (length (links g))"
      and 3: "(f, links g) \<in> set (file_groups_of ls)" by auto
    from fgo_member [OF 3] have 4: "links g = filter (\<lambda>l. target_file l = f) ls" .
    have "\<forall>l \<in> set (links g). target_file l = f" by (subst 4) simp
    with 1 2 4 show "external_file' g = f \<and> (\<forall>l \<in> set (links g). target_file l = f) \<and>
          links g = filter (\<lambda>l. target_file l = f) ls \<and>
          reference_count g = int (length (links g))" by blast
  qed
qed

subsection \<open>Duplicates within one scan\<close>

lemma is_duplicate_link_iff:
  "is_duplicate_link ls s c t \<longleftrightarrow> (s, c, t) \<in> link_triple ` set ls"
  by (induction ls) (auto simp: link_triple_def)

lemma wl_inv_add_link_source:
  "wl_inv name (fst st) \<Longrightarrow> wl_inv name (fst (add_link_source name st src))"
  by (simp add: wl_inv_def add_link_source_def formula_links_def Let_def)

lemma wl_inv_add_formula_link:
  "wl_inv name (fst st) \<Longrightarrow> wl_inv name (fst (add_formula_link name sheet c st ext))"
  by (auto simp: wl_inv_def add_formula_link_def formula_links_def is_duplicate_link_iff
        link_triple_def image_iff)

lemma wl_inv_foldl:
  assumes "\<And>st x. wl_inv name (fst st) \<Longrightarrow> wl_inv name (fst (f st x))"
  shows "wl_inv name (fst st) \<Longrightarrow> wl_inv name (fst (foldl f st xs))"
  by (induction xs arbitrary: st) (simp_all add: assms)

lemma wl_inv_scan_cell:
  "wl_inv name (fst st) \<Longrightarrow> wl_inv name (fst (scan_cell name sheet st co))"
  by (auto simp: scan_cell_def split: option.splits
        intro!: wl_inv_foldl wl_inv_add_formula_link)

lemma wl_inv_scan_worksheets:
  "wl_inv name (fst st) \<Longrightarrow> wl_inv name (fst (snd (scan_worksheets name st wss)))"
proof (induction name st wss rule: scan_worksheets.induct)
  case (3 workbook_name st ws rest)
  show ?case
    by (simp, rule 3) (auto split: option.splits intro!: wl_inv_foldl wl_inv_scan_cell "3.prems")
qed simp_all

lemma wl_inv_scan_workbook_links:
  "wl_inv (wb_Name wb) (fst (snd (scan_workbook_links wb files)))"
proof -
  have e: "wl_inv (wb_Name wb) (fst ([], files))"
    by (simp add: wl_inv_def formula_links_def)
  have "wl_inv (wb_Name wb) (fst (case LinkSources wb of
             None \<Rightarrow> ([], files)
           | Some link_sources \<Rightarrow> foldl (add_link_source (wb_Name wb)) ([], files) link_sources))"
  proof (cases "LinkSources wb")
    case None
    with e show ?thesis by simp
  next
    case (Some link_sources)
    have "wl_inv (wb_Name wb) (fst (foldl (add_link_source (wb_Name wb)) ([], files) link_sources))"
      by (rule wl_inv_foldl [OF wl_inv_add_link_source e])
    with Some show ?thesis by simp
  qed
  then show ?thesis
    unfolding scan_workbook_links_def Let_def by (rule wl_inv_scan_worksheets)
qed

lemma scan_workbook_links_cases:
  "sc_external_links (scan_workbook st wb) = sc_external_links st \<or>
   sc_external_links (scan_workbook st wb) =
     sc_external_links st @ fst (snd (scan_workbook_links wb (sc_external_files st)))"
  by (auto simp: scan_workbook_def Let_def split: prod.splits)

lemma distinct_keys_append:
  assumes "distinct (map link_key (formula_links xs))" and "wl_inv name ys"
    and "\<forall>l \<in> set xs. source_workbook l \<noteq> name"
  shows "distinct (map link_key (formula_links (xs @ ys)))"
proof -
  have ys: "distinct (map link_key (formula_links ys))"
  proof -
    have "inj_on link_key (set (formula_links ys))"
      using assms(2)
      by (auto simp: inj_on_def link_key_def wl_inv_def distinct_map)
    with assms(2) show ?thesis
      by (auto simp: distinct_map wl_inv_def link_key_def inj_on_def)
  qed
  have "link_key ` set (formula_links xs) \<inter> link_key ` set (formula_links ys) = {}"
    using assms(2,3) by (auto simp: link_key_def wl_inv_def formula_links_def)
  with assms(1) ys show ?thesis
    by (simp add: formula_links_def)
qed

lemma scan_workbook_names:
  "l \<in> set (sc_external_links (scan_workbook st wb)) \<Longrightarrow>
     l \<in> set (sc_external_links st) \<or> source_workbook l = wb_Name wb"
  using scan_workbook_links_cases [of st wb] wl_inv_scan_workbook_links [of wb "sc_external_files st"]
  by (auto simp: wl_inv_def)

lemma scan_workbook_distinct:
  assumes "distinct (map link_key (formula_links (sc_external_links st)))"
    and "\<forall>l \<in> set (sc_external_links st). source_workbook l \<noteq> wb_Name wb"
  shows "distinct (map link_key (formula_links (sc_external_links (scan_workbook st wb))))"
  using scan_workbook_links_cases [of st wb] assms
    distinct_keys_append [OF assms(1) wl_inv_scan_workbook_links [of wb "sc_external_files st"] assms(2)]
  by auto

lemma scan_workbooks_distinct:
  "distinct (workbook_names wbs) \<Longrightarrow>
   distinct (map link_key (formula_links (sc_external_links st))) \<Longrightarrow>
   \<forall>l \<in> set (sc_external_links st). source_workbook l \<notin> set (workbook_names wbs) \<Longrightarrow>
   distinct (map link_key (formula_links (sc_external_links (snd (scan_workbooks st wbs)))))"
proof (induction st wbs rule: scan_workbooks.induct)
  case (1 st)
  then show ?case by simp
next
  case (2 st rest)
  then show ?case by simp
next
  case (3 st wb rest)
  have d: "distinct (map link_key (formula_links (sc_external_links (scan_workbook st wb))))"
    using 3(3,4) by (intro scan_workbook_distinct) auto
  have n: "\<forall>l \<in> set (sc_external_links (scan_workbook st wb)).
             source_workbook l \<notin> set (workbook_names rest)"
  proof
    fix l assume "l \<in> set (sc_external_links (scan_workbook st wb))"
    then have "l \<in> set (sc_external_links st) \<or> source_workbook l = wb_Name wb"
      by (rule scan_workbook_names)
    with 3(2,4) show "source_workbook l \<notin> set (workbook_names rest)" by auto
  qed
  from 3(2) have "distinct (workbook_names rest)" by simp
  from 3(1) [OF this d n] show ?case by simp
qed

subsection \<open>The claims about the links manager\<close>

text \<open>
  Claim C2. \<open>scan_open_workbooks\<close> deduplicates what it records. The file names extracted
  from one formula are pairwise different. Among the links that one workbook contributes,
  no two links made from formulas have the same (source sheet, source cell, target file).
  When the open workbooks have different names, as Excel requires, no two links made from
  formulas in the returned list have the same source workbook, sheet, cell and target file.
\<close>

theorem scan_deduplicates:
  "distinct (extract_external_files_from_formula f) \<and>
   distinct (map link_triple (formula_links (fst (snd (scan_workbook_links wb files))))) \<and>
   (distinct (workbook_names wbs) \<longrightarrow>
      distinct (map link_key (formula_links (fst (snd (scan_open_workbooks m (Some wbs)))))))"
proof (intro conjI impI)
  show "distinct (extract_external_files_from_formula f)"
    by (simp add: extract_external_files_from_formula_def)
  show "distinct (map link_triple (formula_links (fst (snd (scan_workbook_links wb files)))))"
    using wl_inv_scan_workbook_links [of wb files] by (simp add: wl_inv_def)
  assume "distinct (workbook_names wbs)"
  then have "distinct (map link_key (formula_links (sc_external_links (snd (scan_workbooks scan_start wbs)))))"
    by (rule scan_workbooks_distinct) (simp_all add: scan_start_def formula_links_def)
  then show "distinct (map link_key (formula_links (fst (snd (scan_open_workbooks m (Some wbs))))))"
    by (cases "scan_workbooks scan_start wbs")
       (simp add: scan_open_workbooks_def scan_result_def Let_def)
qed

theorem scan_deduplicates_witness:
  "distinct (workbook_names [Some demo_workbook]) \<and>
   distinct (map link_key (formula_links
     (fst (snd (scan_open_workbooks init_manager (Some [Some demo_workbook])))))) \<and>
   map target_file (fst (snd (scan_open_workbooks init_manager (Some [Some demo_workbook])))) =
     [''Data.xlsx'', ''Data.xlsx'', ''Other.xls'']"
  using scan_deduplicates [of "[]" demo_workbook "{}" "[Some demo_workbook]" init_manager]
  by code_simp

text \<open>
  Claim C3. Grouping is a faithful partition. After \<open>_group_links_by_external_file\<close>, after
  \<open>get_grouped_search_results\<close> and after a scan, the keys of the dictionary are pairwise
  different, every link of the group stored under \<open>f\<close> has target file \<open>f\<close> (the group
  holds exactly the input links with that target, in their order), \<open>reference_count\<close> is
  the length of the group's list, and the lists of all groups together are a permutation
  of the input list. The dictionary is rebuilt from the links alone: whatever was stored in
  \<open>grouped_links\<close> before has no influence on the result.
\<close>

theorem grouping_faithful_partition:
  "faithful_partition (external_links m) (grouped_links (group_links_by_external_file m)) \<and>
   faithful_partition (search_links m keyword search_field)
     (get_grouped_search_results m keyword search_field) \<and>
   faithful_partition (fst (snd (scan_open_workbooks m app)))
     (grouped_links (fst (scan_open_workbooks m app))) \<and>
   grouped_links (group_links_by_external_file (m\<lparr>grouped_links := old\<rparr>)) =
     grouped_links (group_links_by_external_file m) \<and>
   get_grouped_search_results (m\<lparr>grouped_links := old\<rparr>) keyword search_field =
     get_grouped_search_results m keyword search_field \<and>
   grouped_links (fst (scan_open_workbooks (m\<lparr>grouped_links := old\<rparr>) app)) =
     grouped_links (fst (scan_open_workbooks m app))"
proof (intro conjI)
  show "faithful_partition (external_links m) (grouped_links (group_links_by_external_file m))"
    by (simp add: group_links_by_external_file_def faithful_make_groups)
  show "faithful_partition (search_links m keyword search_field)
     (get_grouped_search_results m keyword search_field)"
    by (simp add: get_grouped_search_results_def faithful_make_groups)
  show "faithful_partition (fst (snd (scan_open_workbooks m app)))
     (grouped_links (fst (scan_open_workbooks m app)))"
    by (cases "scan_result app")
       (simp add: scan_open_workbooks_def Let_def group_links_by_external_file_def
          faithful_make_groups)
  show "grouped_links (group_links_by_external_file (m\<lparr>grouped_links := old\<rparr>)) =
     grouped_links (group_links_by_external_file m)"
    by (simp add: group_links_by_external_file_def)
  show "get_grouped_search_results (m\<lparr>grouped_links := old\<rparr>) keyword search_field =
     get_grouped_search_results m keyword search_field"
    by (simp add: get_grouped_search_results_def search_links_def)
  show "grouped_links (fst (scan_open_workbooks (m\<lparr>grouped_links := old\<rparr>) app)) =
     grouped_links (fst (scan_open_workbooks m app))"
    by (cases "scan_result app")
       (simp add: scan_open_workbooks_def Let_def group_links_by_external_file_def)
qed

theorem grouping_faithful_partition_witness:
  "faithful_partition (external_links demo_manager)
     (grouped_links (group_links_by_external_file demo_manager)) \<and>
   map (\<lambda>(f, g). (f, map source_cell (links g), reference_count g))
     (grouped_links (group_links_by_external_file demo_manager)) =
     [(''Q1a.xlsx'', [''$A$1'', ''$A$3''], 2), (''Q1b.xlsx'', [''$A$2''], 1)]"
  using grouping_faithful_partition [of demo_manager "[]" "[]" None "[]"]
  by (simp add: demo_manager_def group_links_by_external_file_def make_groups_def
        file_groups_of_def demo_link_def)

text \<open>
  Claim C10. \<open>search_links\<close> with an empty keyword returns the whole stored list, whatever
  the search field; with a non-empty keyword and a search field other than
  \<open>external_file\<close>, \<open>formula\<close>, \<open>source_workbook\<close> and \<open>all\<close> it returns the empty list.
\<close>

theorem search_links_edge_cases:
  "search_links m [] search_field = external_links m \<and>
   (keyword \<noteq> [] \<and> search_field \<notin> {''external_file'', ''formula'', ''source_workbook'', ''all''}
      \<longrightarrow> search_links m keyword search_field = [])"
  by (simp add: search_links_def link_matches_def)

theorem search_links_edge_cases_witness:
  "''Q1'' \<noteq> [] \<and> ''source_sheet'' \<notin> {''external_file'', ''formula'', ''source_workbook'', ''all''} \<and>
   search_links demo_manager ''Q1'' ''source_sheet'' = [] \<and>
   length (search_links demo_manager ''Q1'' ''all'') = 3 \<and>
   length (search_links demo_manager [] ''source_sheet'') = 3"
  using search_links_edge_cases [of demo_manager "''source_sheet''" "''Q1''"]
  by (simp add: demo_manager_def search_links_def link_matches_def demo_link_def lower_def lower_char_def)

subsection \<open>What a scan returns\<close>

lemma scan_workbooks_names:
  "l \<in> set (sc_external_links (snd (scan_workbooks st wbs))) \<Longrightarrow>
     l \<in> set (sc_external_links st) \<or> source_workbook l \<in> set (workbook_names wbs)"
proof (induction st wbs rule: scan_workbooks.induct)
  case (3 st wb rest)
  then have "l \<in> set (sc_external_links (scan_workbook st wb)) \<or>
      source_workbook l \<in> set (workbook_names rest)" by simp
  then show ?case using scan_workbook_names [of l st wb] by auto
qed simp_all

lemma scan_workbooks_finished:
  "None \<notin> set wbs \<Longrightarrow> fst (scan_workbooks st wbs)"
  by (induction st wbs rule: scan_workbooks.induct) simp_all

lemma scan_result_names:
  "l \<in> set (fst (scan_result app)) \<Longrightarrow>
     \<exists>wbs. app = Some wbs \<and> source_workbook l \<in> set (workbook_names wbs)"
proof (cases app)
  case None
  assume "l \<in> set (fst (scan_result app))"
  with None show ?thesis by (simp add: scan_result_def)
next
  case (Some wbs)
  assume "l \<in> set (fst (scan_result app))"
  with Some have "l \<in> set (sc_external_links (snd (scan_workbooks scan_start wbs)))"
    by (cases "scan_workbooks scan_start wbs") (simp add: scan_result_def)
  from scan_workbooks_names [OF this] Some show ?thesis
    by (simp add: scan_start_def)
qed

lemma scan_result_total_links:
  "None \<notin> set wbs \<Longrightarrow>
     total_links (snd (scan_result (Some wbs))) = int (length (fst (scan_result (Some wbs))))"
  using scan_workbooks_finished [of wbs scan_start]
  by (cases "scan_workbooks scan_start wbs") (simp add: scan_result_def)

lemma scan_open_workbooks_eq:
  "scan_open_workbooks m app =
     (\<lparr>external_links = fst (scan_result app),
       grouped_links = make_groups (file_groups_of (fst (scan_result app)))\<rparr>,
      scan_result app)"
  by (cases "scan_result app")
     (simp add: scan_open_workbooks_def Let_def group_links_by_external_file_def)

text \<open>
  Claim C7. Link records are discarded on rescan. \<open>scan_open_workbooks\<close> empties the stored
  list first, so its result is the same whatever the manager held before; the returned
  list is the stored list, each of its links comes from a workbook that is open during
  this call, and \<open>total_links\<close> is its length when the loop over the workbooks finished.
  No method changes a record once it is made: grouping leaves the stored list as it is,
  and searches and groups hold records of the stored list.
\<close>

theorem rescan_discards_previous_links:
  "scan_open_workbooks m app = scan_open_workbooks m' app \<and>
   external_links (fst (scan_open_workbooks m app)) = fst (snd (scan_open_workbooks m app)) \<and>
   (\<forall>l \<in> set (fst (snd (scan_open_workbooks m app))).
      \<exists>wbs. app = Some wbs \<and> source_workbook l \<in> set (workbook_names wbs)) \<and>
   (\<forall>wbs. app = Some wbs \<and> None \<notin> set wbs \<longrightarrow>
      total_links (snd (snd (scan_open_workbooks m app))) =
        int (length (fst (snd (scan_open_workbooks m app))))) \<and>
   external_links (group_links_by_external_file m) = external_links m \<and>
   set (search_links m keyword search_field) \<subseteq> set (external_links m) \<and>
   (\<forall>(f, g) \<in> set (get_grouped_search_results m keyword search_field).
      set (links g) \<subseteq> set (external_links m)) \<and>
   (\<forall>(f, g) \<in> set (grouped_links (group_links_by_external_file m)).
      set (links g) \<subseteq> set (external_links m))"
proof (intro conjI)
  show "scan_open_workbooks m app = scan_open_workbooks m' app"
    by (simp only: scan_open_workbooks_eq)
  show "external_links (fst (scan_open_workbooks m app)) = fst (snd (scan_open_workbooks m app))"
    by (simp add: scan_open_workbooks_eq)
  show "\<forall>l \<in> set (fst (snd (scan_open_workbooks m app))).
      \<exists>wbs. app = Some wbs \<and> source_workbook l \<in> set (workbook_names wbs)"
    by (simp add: scan_open_workbooks_eq scan_result_names)
  show "\<forall>wbs. app = Some wbs \<and> None \<notin> set wbs \<longrightarrow>
      total_links (snd (snd (scan_open_workbooks m app))) =
        int (length (fst (snd (scan_open_workbooks m app))))"
    by (simp add: scan_open_workbooks_eq scan_result_total_links)
  show "external_links (group_links_by_external_file m) = external_links m"
    by (simp add: group_links_by_external_file_def)
  show s: "set (search_links m keyword search_field) \<subseteq> set (external_links m)"
    by (auto simp: search_links_def)
  have "faithful_partition (search_links m keyword search_field)
     (get_grouped_search_results m keyword search_field)"
    by (simp add: get_grouped_search_results_def faithful_make_groups)
  with s show "\<forall>(f, g) \<in> set (get_grouped_search_results m keyword search_field).
      set (links g) \<subseteq> set (external_links m)"
    by (fastforce simp: faithful_partition_def)
  have "faithful_partition (external_links m) (grouped_links (group_links_by_external_file m))"
    by (simp add: group_links_by_external_file_def faithful_make_groups)
  then show "\<forall>(f, g) \<in> set (grouped_links (group_links_by_external_file m)).
      set (links g) \<subseteq> set (external_links m)"
    by (fastforce simp: faithful_partition_def)
qed

theorem rescan_discards_previous_links_witness:
  "map source_workbook (external_links demo_manager) = [''Q1.xlsx'', ''Q1.xlsx'', ''Q1.xlsx''] \<and>
   None \<notin> set [Some demo_workbook] \<and>
   map source_workbook (fst (snd (scan_open_workbooks demo_manager (Some [Some demo_workbook])))) =
     [''Book.xlsx'', ''Book.xlsx'', ''Book.xlsx''] \<and>
   total_links (snd (snd (scan_open_workbooks demo_manager (Some [Some demo_workbook])))) = 3 \<and>
   scan_open_workbooks demo_manager (Some [Some demo_workbook]) =
     scan_open_workbooks init_manager (Some [Some demo_workbook]) \<and>
   get_grouped_search_results demo_manager ''q1b'' ''all'' \<noteq> []"
proof -
  note t = rescan_discards_previous_links
    [of demo_manager "Some [Some demo_workbook]" init_manager "''q1b''" "''all''"]
  have old: "map source_workbook (external_links demo_manager) =
      [''Q1.xlsx'', ''Q1.xlsx'', ''Q1.xlsx'']"
    by code_simp
  have h: "None \<notin> set [Some demo_workbook]" by simp
  have new: "map source_workbook
      (fst (snd (scan_open_workbooks demo_manager (Some [Some demo_workbook])))) =
      [''Book.xlsx'', ''Book.xlsx'', ''Book.xlsx'']"
    by code_simp
  from t h have "total_links (snd (snd (scan_open_workbooks demo_manager (Some [Some demo_workbook])))) =
      int (length (fst (snd (scan_open_workbooks demo_manager (Some [Some demo_workbook])))))"
    by blast
  also have "length (fst (snd (scan_open_workbooks demo_manager (Some [Some demo_workbook])))) = 3"
    using arg_cong [OF new, of length] by simp
  finally have n: "total_links (snd (snd (scan_open_workbooks demo_manager (Some [Some demo_workbook])))) = 3"
    by simp
  from t have e: "scan_open_workbooks demo_manager (Some [Some demo_workbook]) =
      scan_open_workbooks init_manager (Some [Some demo_workbook])"
    by blast
  have g: "get_grouped_search_results demo_manager ''q1b'' ''all'' \<noteq> []"
    by code_simp
  from old h new n e g show ?thesis by blast
qed

subsection \<open>Which links are passed to UpdateLink\<close>

lemma workbooks_samefile_comparable:
  "paths_comparable fs wbs \<Longrightarrow> fs p \<noteq> None \<Longrightarrow>
     workbooks_samefile fs wbs p = Inr (target_is_open fs wbs p)"
proof (induction fs wbs p rule: workbooks_samefile.induct)
  case (1 fs file_path)
  then show ?case by (simp add: target_is_open_def)
next
  case (2 fs rest file_path)
  then show ?case by (simp add: paths_comparable_def)
next
  case (3 fs wb rest file_path)
  from 3(2) have c: "paths_comparable fs rest" and e: "fs (FullName wb) \<noteq> None"
    by (simp_all add: paths_comparable_def)
  from e 3(3) obtain same where s: "samefile fs (FullName wb) file_path = Inr same"
    by (auto simp: samefile_def)
  show ?case
  proof (cases same)
    case True
    with s show ?thesis by (simp add: target_is_open_def)
  next
    case False
    with s 3(1) [OF s _ c 3(3)] show ?thesis by (simp add: target_is_open_def)
  qed
qed

lemma link_is_updated_comparable:
  assumes "paths_comparable fs wbs"
  shows "link_is_updated fs wbs threshold link \<longleftrightarrow>
     (\<exists>last_modified. get_last_modified_date fs link = Some last_modified \<and>
        threshold \<le> last_modified \<and> \<not> target_is_open fs wbs link)"
proof (cases "get_last_modified_date fs link")
  case None
  then show ?thesis by (simp add: link_is_updated_def)
next
  case (Some last_modified)
  then have "fs link \<noteq> None"
    by (auto simp: get_last_modified_date_def split: option.splits)
  from workbooks_samefile_comparable [OF assms this] Some show ?thesis
    by (simp add: link_is_updated_def is_workbook_open_def)
qed

lemma update_calls_update_links:
  "update_calls (update_links update_ok wb st ls) = update_calls st @ map (Pair (FullName wb)) ls"
  unfolding update_links_def
  by (induction ls arbitrary: st) simp_all

lemma update_calls_process_workbook:
  "update_calls (process_workbook fs update_ok wbs threshold st wb) =
     update_calls st @ calls_of_workbook fs wbs threshold wb"
  by (simp add: process_workbook_def calls_of_workbook_def update_calls_update_links
        split: option.splits)

lemma update_calls_process_workbooks:
  "None \<notin> set rest \<Longrightarrow>
   update_calls (process_workbooks fs update_ok wbs threshold st rest) =
     update_calls st @ concat (map (\<lambda>w. calls_of_workbook fs wbs threshold (the w)) rest)"
  by (induction fs update_ok wbs threshold st rest rule: process_workbooks.induct)
     (simp_all add: update_calls_process_workbook)

lemma calls_of_workbook_member:
  assumes "paths_comparable fs wbs"
  shows "(full, link) \<in> set (calls_of_workbook fs wbs threshold wb) \<longleftrightarrow>
     FullName wb = full \<and> (\<exists>link_names. LinkSources wb = Some link_names \<and> link \<in> set link_names) \<and>
     (\<exists>last_modified. get_last_modified_date fs link = Some last_modified \<and>
        threshold \<le> last_modified \<and> \<not> target_is_open fs wbs link)"
  by (cases "LinkSources wb")
     (auto simp: calls_of_workbook_def link_is_updated_comparable [OF assms])

lemma paths_comparable_no_None: "paths_comparable fs wbs \<Longrightarrow> None \<notin> set wbs"
  by (auto simp: paths_comparable_def)

lemma update_link_iff_when_paths_comparable:
  assumes "paths_comparable fs wbs"
    and "run_excel_link_update check_days fs update_ok now (Some wbs) = Inr st"
  shows "(full, link) \<in> set (update_calls st) \<longleftrightarrow>
     (\<exists>wb link_names last_modified.
        Some wb \<in> set wbs \<and> FullName wb = full \<and> LinkSources wb = Some link_names \<and>
        link \<in> set link_names \<and>
        get_last_modified_date fs link = Some last_modified \<and>
        now - (case check_days of None \<Rightarrow> 14 | Some n \<Rightarrow> n) * 86400000000 \<le> last_modified \<and>
        \<not> target_is_open fs wbs link)"
proof -
  let ?n = "case check_days of None \<Rightarrow> 14 | Some n \<Rightarrow> n"
  from assms(2) obtain threshold where
    t: "minus_days now ?n = Inr threshold" and
    st: "st = process_workbooks fs update_ok wbs threshold \<lparr>update_calls = [], total_updated = 0\<rparr> wbs"
    by (auto simp: run_excel_link_update_def check_and_update_links_def split: sum.splits)
  from t have th: "threshold = now - ?n * 86400000000"
    by (auto simp: minus_days_def Let_def split: if_splits)
  from assms(1) have nn: "None \<notin> set wbs" by (rule paths_comparable_no_None)
  have "(full, link) \<in> set (update_calls st) \<longleftrightarrow>
      (\<exists>w \<in> set wbs. (full, link) \<in> set (calls_of_workbook fs wbs threshold (the w)))"
    by (simp add: st update_calls_process_workbooks [OF nn])
  also have "\<dots> \<longleftrightarrow> (\<exists>wb. Some wb \<in> set wbs \<and> (full, link) \<in> set (calls_of_workbook fs wbs threshold wb))"
    using nn by (metis option.sel option.exhaust)
  also have "\<dots> \<longleftrightarrow> (\<exists>wb link_names last_modified.
        Some wb \<in> set wbs \<and> FullName wb = full \<and> LinkSources wb = Some link_names \<and>
        link \<in> set link_names \<and>
        get_last_modified_date fs link = Some last_modified \<and>
        threshold \<le> last_modified \<and> \<not> target_is_open fs wbs link)"
    unfolding calls_of_workbook_member [OF assms(1)] by blast
  finally show ?thesis by (simp add: th)
qed

text \<open>
  Claim C1. \<open>UpdateLink\<close> is to be called for a link exactly when its target has a
  readable modification time on or after the cutoff and is not one of the open
  workbooks. With an unsaved workbook \<open>Book1\<close> in front of the saved workbooks
  \<open>A.xlsx\<close> and \<open>B.xlsx\<close>, the link from \<open>A.xlsx\<close> to \<open>B.xlsx\<close> is updated although
  \<open>B.xlsx\<close> is open: comparing \<open>Book1\<close> with the target raises, and \<open>is_workbook_open\<close>
  answers \<open>False\<close> without looking at the workbooks behind it. Without \<open>Book1\<close> the
  same link is skipped.
\<close>

theorem update_link_called_for_open_target:
  "run_excel_link_update None demo_fs (\<lambda>w l. True) demo_now (Some demo_unsaved_first) =
     Inr \<lparr>update_calls = [(''C:/w/A.xlsx'', ''C:/w/B.xlsx'')], total_updated = 1\<rparr> \<and>
   target_is_open demo_fs demo_unsaved_first ''C:/w/B.xlsx'' \<and>
   is_workbook_open demo_fs demo_unsaved_first ''C:/w/B.xlsx'' = False \<and>
   run_excel_link_update None demo_fs (\<lambda>w l. True) demo_now (Some demo_saved) =
     Inr \<lparr>update_calls = [], total_updated = 0\<rparr>"
  by (simp add: run_excel_link_update_def check_and_update_links_def minus_days_def
        datetime_max_def demo_now_def demo_unsaved_first_def demo_saved_def plain_workbook_def
        process_workbook_def link_is_updated_def get_last_modified_date_def demo_fs_def
        is_workbook_open_def samefile_def update_links_def target_is_open_def)

subsection \<open>Formatting and parsing of modification times\<close>

lemma split_ws_from_subset:
  "w' \<in> set (split_ws_from w s) \<Longrightarrow> set w' \<subseteq> set w \<union> set s"
proof (induction w s rule: split_ws_from.induct)
  case (1 w)
  then show ?case by (auto split: if_splits)
next
  case (2 w c cs)
  then show ?case by (fastforce split: if_splits)
qed

lemma split_ws_subset: "w \<in> set (split_ws s) \<Longrightarrow> set w \<subseteq> set s"
  using split_ws_from_subset [of w "[]" s] by (simp add: split_ws_def)

lemma split_on_no_sep: "sep \<notin> set s \<Longrightarrow> split_on sep s = [s]"
  by (induction s) (auto simp: Let_def)

lemma unpack3_single: "unpack3 [x] = None"
  by (cases x) simp_all

lemma is_digit_char_of: "(k::nat) < 10 \<Longrightarrow> is_digit (char_of (48 + k))"
  by (simp add: is_digit_def Let_def)

lemma str_nat_digits: "c \<in> set (str_nat n) \<Longrightarrow> is_digit c"
proof (induction n rule: str_nat.induct)
  case (1 n)
  show ?case
  proof (cases "n < 10")
    case True
    with 1(2) have "c = char_of (48 + n)"
      by (subst (asm) str_nat.simps) simp
    with True show ?thesis by (simp add: is_digit_char_of)
  next
    case False
    with 1(2) have "c \<in> set (str_nat (n div 10)) \<or> c = char_of (48 + n mod 10)"
      by (subst (asm) str_nat.simps) auto
    with 1(1) [OF False] show ?thesis
      using is_digit_char_of [of "n mod 10"] by auto
  qed
qed

lemma format_02d_digits: "c \<in> set (format_02d n) \<Longrightarrow> is_digit c"
proof -
  assume "c \<in> set (format_02d n)"
  then have "c = CHR ''0'' \<or> c \<in> set (str_nat n)"
    by (auto simp: format_02d_def Let_def)
  moreover have "is_digit CHR ''0''" by (simp add: is_digit_def)
  ultimately show ?thesis using str_nat_digits by blast
qed

lemma slash_not_digit: "\<not> is_digit CHR ''/''"
  by (simp add: is_digit_def)

lemma no_slash_in_mtime_str: "CHR ''/'' \<notin> set (get_file_mtime_str mtime_of path)"
proof (cases "mtime_of path")
  case None
  then show ?thesis by (simp add: get_file_mtime_str_def)
next
  case (Some dt)
  have "\<not> is_digit CHR ''/''" by (rule slash_not_digit)
  then have "CHR ''/'' \<notin> set (str_nat n)" and "CHR ''/'' \<notin> set (format_02d n)" for n
    using str_nat_digits format_02d_digits by blast+
  with Some show ?thesis by (simp add: get_file_mtime_str_def)
qed

lemma parse_mtime_without_slash:
  assumes "CHR ''/'' \<notin> set s"
  shows "parse_mtime s = None"
proof (cases "split_ws s")
  case Nil
  then show ?thesis by (simp add: parse_mtime_def)
next
  case (Cons date rest)
  then have "set date \<subseteq> set s" by (intro split_ws_subset) simp
  with assms have "split_on CHR ''/'' date = [date]" by (intro split_on_no_sep) auto
  with Cons show ?thesis
    by (cases rest) (simp_all add: parse_mtime_def unpack3_single)
qed

text \<open>
  Claim C9. \<open>get_file_mtime_str\<close> and \<open>parse_mtime\<close> do not round-trip: whatever the file
  system holds for the path, also nothing, \<open>parse_mtime\<close> returns \<open>None\<close> on the string
  that \<open>get_file_mtime_str\<close> produces. A time written as day/month/year hour:minute is
  parsed. For a file changed on 5 January 2024 at 13:04:09 the string is
  \<open>2024-01-05 13:04:09\<close>.
\<close>

theorem mtime_str_does_not_round_trip:
  "parse_mtime (get_file_mtime_str mtime_of path) = None \<and>
   get_file_mtime_str demo_mtime_of ''C:/w/A.xlsx'' = ''2024-01-05 13:04:09'' \<and>
   get_file_mtime_str demo_mtime_of ''C:/w/Gone.xlsx'' = [] \<and>
   parse_mtime ''05/01/2024 13:04'' =
     Some \<lparr>year = 2024, month = 1, day = 5, hour = 13, minute = 4, second = 0\<rparr>"
proof (intro conjI)
  show "parse_mtime (get_file_mtime_str mtime_of path) = None"
    by (rule parse_mtime_without_slash) (rule no_slash_in_mtime_str)
  show "get_file_mtime_str demo_mtime_of ''C:/w/A.xlsx'' = ''2024-01-05 13:04:09''"
    by code_simp
  show "get_file_mtime_str demo_mtime_of ''C:/w/Gone.xlsx'' = []"
    by code_simp
  show "parse_mtime ''05/01/2024 13:04'' =
     Some \<lparr>year = 2024, month = 1, day = 5, hour = 13, minute = 4, second = 0\<rparr>"
    by code_simp
qed

subsection \<open>The buffers of the performance monitor\<close>

lemma length_deque_append: "length d \<le> n \<Longrightarrow> length (deque_append n d x) \<le> n"
  by (simp add: deque_append_def Let_def)

lemma deque_append_full:
  "length d = n \<Longrightarrow> 0 < n \<Longrightarrow> deque_append n d x = tl d @ [x]"
  by (cases d) (simp_all add: deque_append_def Let_def)

lemma deque_append_room: "length d < n \<Longrightarrow> deque_append n d x = d @ [x]"
  by (simp add: deque_append_def Let_def)

lemma record_metric_bounded:
  "buffers_bounded m \<Longrightarrow> buffers_bounded (record_metric m name v u c ts now)"
  by (simp add: buffers_bounded_def record_metric_def Let_def length_deque_append)

lemma record_metric_max_history [simp]:
  "max_history (record_metric m name v u c ts now) = max_history m"
  by (simp add: record_metric_def Let_def)

lemma run_call_max_history [simp]: "max_history (run_call m call) = max_history m"
  by (cases call)
     (simp_all add: start_operation_def end_operation_def background_sample_def Let_def
        split: option.splits)

lemma run_call_bounded: "buffers_bounded m \<Longrightarrow> buffers_bounded (run_call m call)"
proof (cases call)
  case (RecordMetric name v u c ts now)
  assume "buffers_bounded m"
  with RecordMetric show ?thesis by (simp add: record_metric_bounded)
next
  case (StartOperation op ctx t1 t2)
  assume "buffers_bounded m"
  with StartOperation show ?thesis
    by (simp add: start_operation_def buffers_bounded_def Let_def)
next
  case (EndOperation i ok t1 t2)
  assume b: "buffers_bounded m"
  show ?thesis
  proof (cases "active_operations m i")
    case None
    with b EndOperation show ?thesis by (simp add: end_operation_def)
  next
    case (Some t)
    from b have "buffers_bounded
        (m\<lparr>active_operations := (active_operations m)(i := None),
           operation_timings := deque_append (max_history m) (operation_timings m)
             (t\<lparr>end_time := Some t1, duration := Some (t1 - start_time t), success := ok\<rparr>)\<rparr>)"
      by (simp add: buffers_bounded_def length_deque_append)
    with Some EndOperation show ?thesis
      by (simp add: end_operation_def Let_def record_metric_bounded)
  qed
next
  case (BackgroundSample cpu mem disk now)
  assume b: "buffers_bounded m"
  then have "buffers_bounded
      (m\<lparr>cpu_percent := deque_append system_metric_maxlen (cpu_percent m) cpu,
         memory_percent := deque_append system_metric_maxlen (memory_percent m) mem,
         disk_usage := deque_append system_metric_maxlen (disk_usage m) disk\<rparr>)"
    by (simp add: buffers_bounded_def length_deque_append system_metric_maxlen_def)
  with BackgroundSample show ?thesis
    by (simp add: background_sample_def Let_def record_metric_bounded)
qed

lemma run_calls_bounded: "buffers_bounded m \<Longrightarrow> buffers_bounded (run_calls m calls)"
  unfolding run_calls_def
  by (induction calls arbitrary: m) (simp_all add: run_call_bounded)

lemma run_calls_max_history: "max_history (run_calls m calls) = max_history m"
  unfolding run_calls_def
  by (induction calls arbitrary: m) simp_all

lemma new_monitor_bounded: "new_monitor n = Inr m \<Longrightarrow> buffers_bounded m \<and> int (max_history m) = n"
  by (auto simp: new_monitor_def buffers_bounded_def split: if_splits)

lemma demo_operation_id: "str_int (int_of_float 3000) = ''3000''"
  by code_simp

lemma demo_run:
  "map metric_name (metrics_history (run_calls demo_start demo_calls)) = [''b'', ''operation_save'']"
  "map operation (operation_timings (run_calls demo_start demo_calls)) = [''save'']"
  by (simp_all add: run_calls_def demo_calls_def demo_start_def record_metric_def
        start_operation_def end_operation_def deque_append_def Let_def demo_operation_id)

text \<open>
  Claim C8. The monitor keeps its records in bounded buffers. After any sequence of
  \<open>record_metric\<close>, \<open>start_operation\<close> and \<open>end_operation\<close> calls and rounds of the
  background loop on a monitor made with \<open>max_history = n\<close>, \<open>metrics_history\<close> and
  \<open>operation_timings\<close> hold at most \<open>n\<close> entries and each buffer of \<open>system_metrics\<close>
  at most 100; the default \<open>n\<close> is 1000. When a buffer is full, the next entry takes
  the place of the oldest one, and otherwise it is added at the end: so it is for
  \<open>metrics_history\<close> in \<open>record_metric\<close>, for \<open>operation_timings\<close> in \<open>end_operation\<close>
  and for each of the three buffers of \<open>system_metrics\<close> in a round of the background
  loop.
\<close>

theorem monitor_buffers_bounded:
  assumes "new_monitor n = Inr m0" and "m = run_calls m0 calls"
  shows "int (length (metrics_history m)) \<le> n \<and> int (length (operation_timings m)) \<le> n \<and>
     length (cpu_percent m) \<le> 100 \<and> length (memory_percent m) \<le> 100 \<and>
     length (disk_usage m) \<le> 100 \<and>
     default_max_history = 1000 \<and>
     (length (metrics_history b) = max_history b \<and> 0 < max_history b \<longrightarrow>
        metrics_history (record_metric b name v unit_name category None now) =
          tl (metrics_history b) @
          [\<lparr>metric_name = name, metric_value = v, metric_unit = unit_name,
            metric_timestamp = now, metric_category = category\<rparr>]) \<and>
     (length (operation_timings b) = max_history b \<and> 0 < max_history b \<and>
      active_operations b operation_id = Some t \<longrightarrow>
        operation_timings (fst (end_operation b operation_id ok now_end now)) =
          tl (operation_timings b) @
          [t\<lparr>end_time := Some now_end, duration := Some (now_end - start_time t),
             success := ok\<rparr>]) \<and>
     (length (cpu_percent b) = 100 \<longrightarrow>
        cpu_percent (fst (background_sample b cpu mem disk now)) = tl (cpu_percent b) @ [cpu]) \<and>
     (length (memory_percent b) = 100 \<longrightarrow>
        memory_percent (fst (background_sample b cpu mem disk now)) =
          tl (memory_percent b) @ [mem]) \<and>
     (length (disk_usage b) = 100 \<longrightarrow>
        disk_usage (fst (background_sample b cpu mem disk now)) = tl (disk_usage b) @ [disk]) \<and>
     (length (metrics_history b) < max_history b \<longrightarrow>
        metrics_history (record_metric b name v unit_name category None now) =
          metrics_history b @
          [\<lparr>metric_name = name, metric_value = v, metric_unit = unit_name,
            metric_timestamp = now, metric_category = category\<rparr>]) \<and>
     (length (operation_timings b) < max_history b \<and>
      active_operations b operation_id = Some t \<longrightarrow>
        operation_timings (fst (end_operation b operation_id ok now_end now)) =
          operation_timings b @
          [t\<lparr>end_time := Some now_end, duration := Some (now_end - start_time t),
             success := ok\<rparr>]) \<and>
     (length (cpu_percent b) < 100 \<longrightarrow>
        cpu_percent (fst (background_sample b cpu mem disk now)) = cpu_percent b @ [cpu]) \<and>
     (length (memory_percent b) < 100 \<longrightarrow>
        memory_percent (fst (background_sample b cpu mem disk now)) = memory_percent b @ [mem]) \<and>
     (length (disk_usage b) < 100 \<longrightarrow>
        disk_usage (fst (background_sample b cpu mem disk now)) = disk_usage b @ [disk])"
proof -
  from assms(1) have b0: "buffers_bounded m0" and n: "int (max_history m0) = n"
    using new_monitor_bounded by blast+
  from b0 have b: "buffers_bounded m"
    unfolding assms(2) by (rule run_calls_bounded)
  have mh: "max_history m = max_history m0"
    unfolding assms(2) by (rule run_calls_max_history)
  from b n mh have 1: "int (length (metrics_history m)) \<le> n"
    and 2: "int (length (operation_timings m)) \<le> n"
    and 3: "length (cpu_percent m) \<le> 100" "length (memory_percent m) \<le> 100"
      "length (disk_usage m) \<le> 100"
    by (auto simp: buffers_bounded_def)
  have 4: "length (metrics_history b) = max_history b \<and> 0 < max_history b \<longrightarrow>
        metrics_history (record_metric b name v unit_name category None now) =
          tl (metrics_history b) @
          [\<lparr>metric_name = name, metric_value = v, metric_unit = unit_name,
            metric_timestamp = now, metric_category = category\<rparr>]"
    by (simp add: record_metric_def Let_def deque_append_full)
  have 5: "length (operation_timings b) = max_history b \<and> 0 < max_history b \<and>
      active_operations b operation_id = Some t \<longrightarrow>
        operation_timings (fst (end_operation b operation_id ok now_end now)) =
          tl (operation_timings b) @
          [t\<lparr>end_time := Some now_end, duration := Some (now_end - start_time t),
             success := ok\<rparr>]"
    by (simp add: end_operation_def record_metric_def Let_def deque_append_full)
  have 6: "length (cpu_percent b) = 100 \<longrightarrow>
        cpu_percent (fst (background_sample b cpu mem disk now)) = tl (cpu_percent b) @ [cpu]"
    by (simp add: background_sample_def record_metric_def Let_def deque_append_full
          system_metric_maxlen_def)
  have 7: "length (memory_percent b) = 100 \<longrightarrow>
        memory_percent (fst (background_sample b cpu mem disk now)) =
          tl (memory_percent b) @ [mem]"
    and 8: "length (disk_usage b) = 100 \<longrightarrow>
        disk_usage (fst (background_sample b cpu mem disk now)) = tl (disk_usage b) @ [disk]"
    by (simp_all add: background_sample_def record_metric_def Let_def deque_append_full
          system_metric_maxlen_def)
  have 9: "length (metrics_history b) < max_history b \<longrightarrow>
        metrics_history (record_metric b name v unit_name category None now) =
          metrics_history b @
          [\<lparr>metric_name = name, metric_value = v, metric_unit = unit_name,
            metric_timestamp = now, metric_category = category\<rparr>]"
    by (simp add: record_metric_def Let_def deque_append_room)
  have 10: "length (operation_timings b) < max_history b \<and>
      active_operations b operation_id = Some t \<longrightarrow>
        operation_timings (fst (end_operation b operation_id ok now_end now)) =
          operation_timings b @
          [t\<lparr>end_time := Some now_end, duration := Some (now_end - start_time t),
             success := ok\<rparr>]"
    by (simp add: end_operation_def record_metric_def Let_def deque_append_room)
  have 11: "length (cpu_percent b) < 100 \<longrightarrow>
        cpu_percent (fst (background_sample b cpu mem disk now)) = cpu_percent b @ [cpu]"
    and 12: "length (memory_percent b) < 100 \<longrightarrow>
        memory_percent (fst (background_sample b cpu mem disk now)) = memory_percent b @ [mem]"
    and 13: "length (disk_usage b) < 100 \<longrightarrow>
        disk_usage (fst (background_sample b cpu mem disk now)) = disk_usage b @ [disk]"
    by (simp_all add: background_sample_def record_metric_def Let_def deque_append_room
          system_metric_maxlen_def)
  have 0: "default_max_history = 1000" by (simp add: default_max_history_def)
  from 0 1 2 3 4 5 6 7 8 9 10 11 12 13 show ?thesis by blast
qed

theorem monitor_buffers_bounded_witness:
  "new_monitor 2 = Inr demo_start \<and>
   map metric_name (metrics_history (run_calls demo_start demo_calls)) = [''b'', ''operation_save''] \<and>
   length (metrics_history (run_calls demo_start demo_calls)) = 2 \<and>
   max_history (run_calls demo_start demo_calls) = 2 \<and>
   map metric_name (metrics_history
     (record_metric (run_calls demo_start demo_calls) ''c'' 3 ''count'' ''general'' None 10)) =
     [''operation_save'', ''c''] \<and>
   length (operation_timings demo_full) = max_history demo_full \<and>
   active_operations demo_full ''scan_1000'' = Some (demo_timing ''scan'') \<and>
   map operation (operation_timings (fst (end_operation demo_full ''scan_1000'' True 30 10))) =
     [''load'', ''scan''] \<and>
   length (cpu_percent demo_full) = 100 \<and>
   hd (cpu_percent (fst (background_sample demo_full 52 53 54 10))) = 50 \<and>
   last (cpu_percent (fst (background_sample demo_full 52 53 54 10))) = 52 \<and>
   length (memory_percent demo_full) = 100 \<and> hd (memory_percent demo_full) = 30 \<and>
   hd (memory_percent (fst (background_sample demo_full 52 53 54 10))) = 60 \<and>
   last (memory_percent (fst (background_sample demo_full 52 53 54 10))) = 53 \<and>
   length (disk_usage demo_full) = 100 \<and> hd (disk_usage demo_full) = 20 \<and>
   hd (disk_usage (fst (background_sample demo_full 52 53 54 10))) = 70 \<and>
   last (disk_usage (fst (background_sample demo_full 52 53 54 10))) = 54 \<and>
   length (cpu_percent demo_start) < 100 \<and>
   cpu_percent (fst (background_sample demo_start 52 53 54 10)) = [52] \<and>
   memory_percent (fst (background_sample demo_start 52 53 54 10)) = [53] \<and>
   disk_usage (fst (background_sample demo_start 52 53 54 10)) = [54]"
proof -
  have h1: "new_monitor 2 = Inr demo_start"
    by (simp add: new_monitor_def demo_start_def)
  note t = monitor_buffers_bounded [OF h1 refl, where calls = demo_calls
      and name = "''c''" and v = 3 and unit_name = "''count''" and category = "''general''"
      and now = 10 and operation_id = "''scan_1000''" and t = "demo_timing ''scan''"
      and ok = True and now_end = 30 and cpu = 52 and mem = 53 and disk = 54]
  have l: "length (metrics_history (run_calls demo_start demo_calls)) = 2"
    using arg_cong [OF demo_run(1), of length] by simp
  have mh: "max_history (run_calls demo_start demo_calls) = 2"
    by (simp add: run_calls_max_history demo_start_def)
  from t [where b = "run_calls demo_start demo_calls"] l mh
  have "metrics_history
      (record_metric (run_calls demo_start demo_calls) ''c'' 3 ''count'' ''general'' None 10) =
      tl (metrics_history (run_calls demo_start demo_calls)) @
      [\<lparr>metric_name = ''c'', metric_value = 3, metric_unit = ''count'', metric_timestamp = 10,
        metric_category = ''general''\<rparr>]"
    by simp
  then have a: "map metric_name (metrics_history
     (record_metric (run_calls demo_start demo_calls) ''c'' 3 ''count'' ''general'' None 10)) =
     [''operation_save'', ''c'']"
    using demo_run(1) by (simp add: map_tl)
  have f1: "length (operation_timings demo_full) = max_history demo_full"
    and f2: "active_operations demo_full ''scan_1000'' = Some (demo_timing ''scan'')"
    and f3: "length (cpu_percent demo_full) = 100"
    and f4: "0 < max_history demo_full"
    by (simp_all add: demo_full_def)
  from t [where b = demo_full] f1 f2 f4
  have "operation_timings (fst (end_operation demo_full ''scan_1000'' True 30 10)) =
      tl (operation_timings demo_full) @
      [(demo_timing ''scan'')\<lparr>end_time := Some 30,
         duration := Some (30 - start_time (demo_timing ''scan'')), success := True\<rparr>]"
    by simp
  then have b: "map operation (operation_timings (fst (end_operation demo_full ''scan_1000'' True 30 10))) =
     [''load'', ''scan'']"
    by (simp add: demo_full_def demo_timing_def)
  have f5: "length (memory_percent demo_full) = 100" and f6: "length (disk_usage demo_full) = 100"
    and f7: "hd (memory_percent demo_full) = 30" and f8: "hd (disk_usage demo_full) = 20"
    by (simp_all add: demo_full_def)
  from t [where b = demo_full] f3
  have "cpu_percent (fst (background_sample demo_full 52 53 54 10)) = tl (cpu_percent demo_full) @ [52]"
    by simp
  then have c: "hd (cpu_percent (fst (background_sample demo_full 52 53 54 10))) = 50"
    and d: "last (cpu_percent (fst (background_sample demo_full 52 53 54 10))) = 52"
    by (simp_all add: demo_full_def numeral_eq_Suc)
  from t [where b = demo_full] f5
  have "memory_percent (fst (background_sample demo_full 52 53 54 10)) =
      tl (memory_percent demo_full) @ [53]"
    by simp
  then have c2: "hd (memory_percent (fst (background_sample demo_full 52 53 54 10))) = 60"
    and d2: "last (memory_percent (fst (background_sample demo_full 52 53 54 10))) = 53"
    by (simp_all add: demo_full_def numeral_eq_Suc)
  from t [where b = demo_full] f6
  have "disk_usage (fst (background_sample demo_full 52 53 54 10)) =
      tl (disk_usage demo_full) @ [54]"
    by simp
  then have c3: "hd (disk_usage (fst (background_sample demo_full 52 53 54 10))) = 70"
    and d3: "last (disk_usage (fst (background_sample demo_full 52 53 54 10))) = 54"
    by (simp_all add: demo_full_def numeral_eq_Suc)
  have g: "length (cpu_percent demo_start) < 100" "length (memory_percent demo_start) < 100"
    "length (disk_usage demo_start) < 100"
    "cpu_percent demo_start = []" "memory_percent demo_start = []" "disk_usage demo_start = []"
    by (simp_all add: demo_start_def)
  from t [where b = demo_start] g
  have e: "cpu_percent (fst (background_sample demo_start 52 53 54 10)) = [52]"
    "memory_percent (fst (background_sample demo_start 52 53 54 10)) = [53]"
    "disk_usage (fst (background_sample demo_start 52 53 54 10)) = [54]"
    by simp_all
  from h1 demo_run(1) l mh a f1 f2 b f3 c d f5 f7 c2 d2 f6 f8 c3 d3 g(1) e show ?thesis
    by blast
qed

subsection \<open>Saving and loading sessions\<close>

lemma save_session_result:
  "selected_workbooks \<noteq> [] \<Longrightarrow>
     snd (save_session monitor selected_workbooks file_path now save_error t1 t2 t3 t4) =
       save_session_impl selected_workbooks file_path now save_error"
  by (simp add: save_session_def Let_def split: prod.splits)

lemma session_rows_nth:
  "i < length selected_workbooks \<Longrightarrow>
     session_rows selected_workbooks ! Suc i =
       (case selected_workbooks ! i of (name, path, sheet, cell_addr) \<Rightarrow> [path, sheet, cell_addr])"
  by (simp add: session_rows_def)

text \<open>
  Claim C4. \<open>save_session\<close> writes a spreadsheet with the header row \<open>File Path\<close>,
  \<open>Sheet Name\<close>, \<open>Cell Address\<close> followed by one row (file path, sheet name, cell
  address) for each selected workbook, in the order given; it returns the path it saved
  to on success, and \<open>None\<close>, writing nothing, when the user cancels the dialog or the list
  is empty.
\<close>

theorem save_session_writes_session_file:
  assumes "r = snd (save_session monitor selected_workbooks file_path now save_error t1 t2 t3 t4)"
    and "target = fst (splitext file_path) @ ''_'' @ strftime_session now @ snd (splitext file_path)"
  shows "(selected_workbooks = [] \<or> file_path = [] \<longrightarrow> returned r = None \<and> written r = None) \<and>
     (selected_workbooks \<noteq> [] \<and> file_path \<noteq> [] \<and> save_error target = None \<longrightarrow>
        returned r = Some target \<and>
        (\<exists>rows. written r = Some (target, rows) \<and>
           length rows = Suc (length selected_workbooks) \<and>
           rows ! 0 = [''File Path'', ''Sheet Name'', ''Cell Address''] \<and>
           (\<forall>i < length selected_workbooks.
              rows ! Suc i =
                (case selected_workbooks ! i of
                   (name, path, sheet, cell_addr) \<Rightarrow> [path, sheet, cell_addr]))))"
proof -
  have 1: "selected_workbooks = [] \<or> file_path = [] \<longrightarrow> returned r = None \<and> written r = None"
  proof (cases "selected_workbooks = []")
    case True
    with assms(1) show ?thesis by (simp add: save_session_def)
  next
    case False
    with assms(1) show ?thesis
      by (simp add: save_session_result save_session_impl_def)
  qed
  have 2: "returned r = Some target \<and>
        (\<exists>rows. written r = Some (target, rows) \<and>
           length rows = Suc (length selected_workbooks) \<and>
           rows ! 0 = [''File Path'', ''Sheet Name'', ''Cell Address''] \<and>
           (\<forall>i < length selected_workbooks.
              rows ! Suc i =
                (case selected_workbooks ! i of
                   (name, path, sheet, cell_addr) \<Rightarrow> [path, sheet, cell_addr])))"
    if a: "selected_workbooks \<noteq> [] \<and> file_path \<noteq> [] \<and> save_error target = None"
  proof -
    from a assms(1) have "r = save_session_impl selected_workbooks file_path now save_error"
      by (simp add: save_session_result)
    with a assms(2) have r: "returned r = Some target"
      "written r = Some (target, session_rows selected_workbooks)"
      by (simp_all add: save_session_impl_def Let_def case_prod_beta)
    have "length (session_rows selected_workbooks) = Suc (length selected_workbooks)"
      and "session_rows selected_workbooks ! 0 = [''File Path'', ''Sheet Name'', ''Cell Address'']"
      by (simp_all add: session_rows_def session_header_def)
    with r session_rows_nth show ?thesis by blast
  qed
  from 1 2 show ?thesis by blast
qed

theorem save_session_writes_session_file_witness:
  "demo_selected \<noteq> [] \<and> ''C:/s/my.xlsx'' \<noteq> [] \<and>
   returned (snd (save_session demo_start demo_selected ''C:/s/my.xlsx'' demo_clock
     (\<lambda>p. None) 1 1 2 2)) = Some ''C:/s/my_2024-01-05_13-04-09.xlsx'' \<and>
   written (snd (save_session demo_start demo_selected ''C:/s/my.xlsx'' demo_clock
     (\<lambda>p. None) 1 1 2 2)) =
     Some (''C:/s/my_2024-01-05_13-04-09.xlsx'',
           [[''File Path'', ''Sheet Name'', ''Cell Address''],
            [''C:/w/A.xlsx'', ''Sheet1'', ''$A$1''],
            [''C:/w/B.xlsx'', ''Data'', ''$C$7'']]) \<and>
   returned (snd (save_session demo_start demo_selected [] demo_clock (\<lambda>p. None) 1 1 2 2)) = None \<and>
   returned (snd (save_session demo_start [] ''C:/s/my.xlsx'' demo_clock (\<lambda>p. None) 1 1 2 2)) = None"
proof -
  have t: "fst (splitext ''C:/s/my.xlsx'') @ ''_'' @ strftime_session demo_clock @
      snd (splitext ''C:/s/my.xlsx'') = ''C:/s/my_2024-01-05_13-04-09.xlsx''"
    by code_simp
  note s = save_session_writes_session_file [OF refl t [symmetric], where save_error = "\<lambda>p. None"]
  have n: "demo_selected \<noteq> []" by (simp add: demo_selected_def)
  from s [where monitor = demo_start and selected_workbooks = demo_selected
      and ?t1.0 = 1 and ?t2.0 = 1 and ?t3.0 = 2 and ?t4.0 = 2] n
  have 1: "returned (snd (save_session demo_start demo_selected ''C:/s/my.xlsx'' demo_clock
     (\<lambda>p. None) 1 1 2 2)) = Some ''C:/s/my_2024-01-05_13-04-09.xlsx''"
    by simp
  have 2: "written (snd (save_session demo_start demo_selected ''C:/s/my.xlsx'' demo_clock
     (\<lambda>p. None) 1 1 2 2)) =
     Some (''C:/s/my_2024-01-05_13-04-09.xlsx'',
           [[''File Path'', ''Sheet Name'', ''Cell Address''],
            [''C:/w/A.xlsx'', ''Sheet1'', ''$A$1''],
            [''C:/w/B.xlsx'', ''Data'', ''$C$7'']])"
    using n t
    by (simp add: save_session_result save_session_impl_def Let_def session_rows_def
          session_header_def demo_selected_def case_prod_beta)
  have 3: "returned (snd (save_session demo_start demo_selected [] demo_clock (\<lambda>p. None) 1 1 2 2)) = None"
    using save_session_writes_session_file [OF refl refl, where monitor = demo_start
        and selected_workbooks = demo_selected and file_path = "[]" and now = demo_clock
        and save_error = "\<lambda>p. None" and ?t1.0 = 1 and ?t2.0 = 1 and ?t3.0 = 2 and ?t4.0 = 2]
    by simp
  have 4: "returned (snd (save_session demo_start [] ''C:/s/my.xlsx'' demo_clock (\<lambda>p. None) 1 1 2 2)) = None"
    using s [where monitor = demo_start and selected_workbooks = "[]"
        and ?t1.0 = 1 and ?t2.0 = 1 and ?t3.0 = 2 and ?t4.0 = 2] by simp
  from n 1 2 3 4 show ?thesis by simp
qed

lemma existing_paths_Inr:
  "existing_paths path_exists ps = Inr v \<Longrightarrow> v = filter (\<lambda>p. path_exists p = Inr True) ps"
proof (induction ps arbitrary: v)
  case Nil
  then show ?case by simp
next
  case (Cons p ps)
  then show ?case by (auto split: sum.splits if_splits)
qed

lemma valid_file_paths_Inr:
  assumes "valid_file_paths truthy path_exists rows = Inr valid"
  shows "valid = map hd (filter (row_is_valid truthy path_exists) rows)"
proof -
  from assms have "valid = filter (\<lambda>p. path_exists p = Inr True) (all_file_paths truthy rows)"
    unfolding valid_file_paths_def by (rule existing_paths_Inr)
  also have "\<dots> = map hd (filter (row_is_valid truthy path_exists) rows)"
    by (induction rows) (auto simp: all_file_paths_def row_is_valid_def)
  finally show ?thesis .
qed

lemma valid_file_paths_first_column:
  "map (take 1) rows' = map (take 1) rows \<Longrightarrow>
     valid_file_paths truthy path_exists rows' = valid_file_paths truthy path_exists rows"
proof -
  assume e: "map (take 1) rows' = map (take 1) rows"
  have "all_file_paths truthy rs = concat (map (\<lambda>r. filter truthy r) (map (take 1) rs))" for rs
  proof (induction rs)
    case Nil
    then show ?case by (simp add: all_file_paths_def)
  next
    case (Cons r rs)
    then show ?case by (cases r) (auto simp: all_file_paths_def)
  qed
  then have "all_file_paths truthy rows' = all_file_paths truthy rows" by (simp only: e)
  then show ?thesis by (simp add: valid_file_paths_def)
qed

lemma load_session_outcomes:
  assumes "outcome = load_session [] file_path True (Some rows) truthy path_exists dialog"
    and "file_path \<noteq> []"
  shows "(valid_file_paths truthy path_exists rows = Inr valid \<longrightarrow>
       valid = map hd (filter (row_is_valid truthy path_exists) rows) \<and>
       (\<forall>rows'. map (take 1) rows' = map (take 1) rows \<longrightarrow>
          valid_file_paths truthy path_exists rows' = Inr valid) \<and>
       (valid = [] \<longrightarrow> outcome = WarnNoValidPaths \<and> open_attempts outcome = []) \<and>
       (valid \<noteq> [] \<and> dialog valid = (''ok'', valid) \<longrightarrow>
          outcome = LoadRows (filter (row_is_valid truthy path_exists) rows) \<and>
          open_attempts outcome = valid)) \<and>
     (valid_file_paths truthy path_exists rows = Inl e \<longrightarrow>
        outcome = ErrorReadingSession \<and> open_attempts outcome = [])"
proof (intro conjI impI allI)
  assume v: "valid_file_paths truthy path_exists rows = Inr valid"
  show eq: "valid = map hd (filter (row_is_valid truthy path_exists) rows)"
    using v by (rule valid_file_paths_Inr)
  {
    fix rows' :: "'a list list"
    assume "map (take 1) rows' = map (take 1) rows"
    then have "valid_file_paths truthy path_exists rows' = valid_file_paths truthy path_exists rows"
      by (rule valid_file_paths_first_column)
    with v show "valid_file_paths truthy path_exists rows' = Inr valid"
      by simp
  }
  {
    assume "valid = []"
    with v assms show "outcome = WarnNoValidPaths" by (simp add: load_session_def)
    then show "open_attempts outcome = []" by (simp add: open_attempts_def)
  }
  {
    assume a: "valid \<noteq> [] \<and> dialog valid = (''ok'', valid)"
    have "filter (\<lambda>r. r \<noteq> [] \<and> truthy (hd r) \<and> hd r \<in> set valid) rows =
        filter (row_is_valid truthy path_exists) rows"
    proof (rule filter_cong [OF refl])
      fix r assume r: "r \<in> set rows"
      show "(r \<noteq> [] \<and> truthy (hd r) \<and> hd r \<in> set valid) = row_is_valid truthy path_exists r"
      proof
        assume h: "r \<noteq> [] \<and> truthy (hd r) \<and> hd r \<in> set valid"
        then obtain r' where "r' \<in> set rows" "row_is_valid truthy path_exists r'" "hd r' = hd r"
          unfolding eq by auto
        with h show "row_is_valid truthy path_exists r" by (simp add: row_is_valid_def)
      next
        assume "row_is_valid truthy path_exists r"
        with r show "r \<noteq> [] \<and> truthy (hd r) \<and> hd r \<in> set valid"
          unfolding eq by (auto simp: row_is_valid_def)
      qed
    qed
    with v a assms show o: "outcome = LoadRows (filter (row_is_valid truthy path_exists) rows)"
      by (simp add: load_session_def)
    show "open_attempts outcome = valid"
      unfolding o eq by (simp add: open_attempts_def)
  }
next
  assume "valid_file_paths truthy path_exists rows = Inl e"
  with assms show o: "outcome = ErrorReadingSession" by (simp add: load_session_def)
  show "open_attempts outcome = []" unfolding o by (simp add: open_attempts_def)
qed

lemma existing_paths_total:
  "\<forall>p \<in> set ps. \<exists>b. path_exists p = Inr b \<Longrightarrow>
     existing_paths path_exists ps = Inr (filter (\<lambda>p. path_exists p = Inr True) ps)"
  by (induction ps) auto

lemma existing_paths_Inl:
  "existing_paths path_exists ps = Inl e \<Longrightarrow> \<exists>p \<in> set ps. path_exists p = Inl e"
  by (induction ps) (auto split: sum.splits)

lemma valid_file_paths_total:
  assumes "\<forall>r \<in> set rows. r \<noteq> [] \<and> truthy (hd r) \<longrightarrow> (\<exists>b. path_exists (hd r) = Inr b)"
  shows "valid_file_paths truthy path_exists rows =
     Inr (map hd (filter (row_is_valid truthy path_exists) rows))"
proof -
  from assms have "\<forall>p \<in> set (all_file_paths truthy rows). \<exists>b. path_exists p = Inr b"
    by (auto simp: all_file_paths_def)
  then have "valid_file_paths truthy path_exists rows =
      Inr (filter (\<lambda>p. path_exists p = Inr True) (all_file_paths truthy rows))"
    unfolding valid_file_paths_def by (rule existing_paths_total)
  then show ?thesis using valid_file_paths_Inr by fastforce
qed

lemma valid_file_paths_Inl:
  assumes "valid_file_paths truthy path_exists rows = Inl e"
  shows "\<exists>r \<in> set rows. r \<noteq> [] \<and> truthy (hd r) \<and> path_exists (hd r) = Inl e"
proof -
  from assms obtain p where "p \<in> set (all_file_paths truthy rows)" "path_exists p = Inl e"
    unfolding valid_file_paths_def by (blast dest: existing_paths_Inl)
  then show ?thesis by (auto simp: all_file_paths_def)
qed

text \<open>
  Claim C5. When a session is loaded, the rows are validated by path existence only. A
  row is kept exactly when its first column is non-empty (truthy) and \<open>os.path.exists\<close>
  holds for it: whenever \<open>os.path.exists\<close> answers for every truthy first cell, the
  valid paths are the first columns of exactly these rows, whatever else the rows hold,
  and they are the rows loaded when the user selects every path offered. Nothing but
  the first column of a row has any influence. When no row is kept, the load stops
  with the warning and nothing is opened. The validation fails only when
  \<open>os.path.exists\<close> raises on a truthy first cell; then the load stops with an error
  and nothing is opened.
\<close>

theorem load_session_checks_path_existence_only:
  assumes "outcome = load_session [] file_path True (Some rows) truthy path_exists dialog"
    and "file_path \<noteq> []"
  shows "(valid_file_paths truthy path_exists rows = Inr valid \<longrightarrow>
       valid = map hd (filter (row_is_valid truthy path_exists) rows) \<and>
       (\<forall>rows'. map (take 1) rows' = map (take 1) rows \<longrightarrow>
          valid_file_paths truthy path_exists rows' = Inr valid) \<and>
       (valid = [] \<longrightarrow> outcome = WarnNoValidPaths \<and> open_attempts outcome = []) \<and>
       (valid \<noteq> [] \<and> dialog valid = (''ok'', valid) \<longrightarrow>
          outcome = LoadRows (filter (row_is_valid truthy path_exists) rows) \<and>
          open_attempts outcome = valid)) \<and>
     (valid_file_paths truthy path_exists rows = Inl e \<longrightarrow>
        outcome = ErrorReadingSession \<and> open_attempts outcome = []) \<and>
     ((\<forall>r \<in> set rows. r \<noteq> [] \<and> truthy (hd r) \<longrightarrow> (\<exists>b. path_exists (hd r) = Inr b)) \<longrightarrow>
        valid_file_paths truthy path_exists rows =
          Inr (map hd (filter (row_is_valid truthy path_exists) rows))) \<and>
     (valid_file_paths truthy path_exists rows = Inl e \<longrightarrow>
        (\<exists>r \<in> set rows. r \<noteq> [] \<and> truthy (hd r) \<and> path_exists (hd r) = Inl e))"
  using load_session_outcomes [OF assms, of valid e]
    valid_file_paths_total [of rows truthy path_exists]
    valid_file_paths_Inl [of truthy path_exists rows e]
  by blast

lemma demo_valid:
  "valid_file_paths demo_truthy demo_exists demo_session_rows = Inr [''C:/w/A.xlsx'', ''C:/w/B.xlsx'']"
  "valid_file_paths demo_truthy demo_exists demo_stale_rows = Inr []"
  by (simp_all add: valid_file_paths_def all_file_paths_def demo_truthy_def demo_exists_def
        demo_session_rows_def demo_stale_rows_def)

lemma demo_valid_rows:
  "filter (row_is_valid demo_truthy demo_exists) demo_session_rows =
     [[''C:/w/A.xlsx'', ''Sheet1'', ''$A$1''], [''C:/w/B.xlsx'', ''!!'', ''no cell'', ''extra'']]"
  by (simp add: row_is_valid_def demo_truthy_def demo_exists_def demo_session_rows_def)

theorem load_session_checks_path_existence_only_witness:
  "''s.xlsx'' \<noteq> [] \<and>
   valid_file_paths demo_truthy demo_exists demo_session_rows =
     Inr (map hd [[''C:/w/A.xlsx'', ''Sheet1'', ''$A$1''],
                  [''C:/w/B.xlsx'', ''!!'', ''no cell'', ''extra'']]) \<and>
   valid_file_paths demo_truthy demo_exists demo_session_rows =
     Inr [''C:/w/A.xlsx'', ''C:/w/B.xlsx''] \<and>
   demo_select_all [''C:/w/A.xlsx'', ''C:/w/B.xlsx''] = (''ok'', [''C:/w/A.xlsx'', ''C:/w/B.xlsx'']) \<and>
   load_session [] ''s.xlsx'' True (Some demo_session_rows) demo_truthy demo_exists demo_select_all =
     LoadRows [[''C:/w/A.xlsx'', ''Sheet1'', ''$A$1''],
               [''C:/w/B.xlsx'', ''!!'', ''no cell'', ''extra'']] \<and>
   valid_file_paths demo_truthy demo_exists demo_stale_rows = Inr [] \<and>
   load_session [] ''s.xlsx'' True (Some demo_stale_rows) demo_truthy demo_exists demo_select_all =
     WarnNoValidPaths \<and>
   open_attempts (load_session [] ''s.xlsx'' True (Some demo_stale_rows) demo_truthy demo_exists
     demo_select_all) = []"
proof -
  have f: "''s.xlsx'' \<noteq> []" by simp
  have d: "demo_select_all [''C:/w/A.xlsx'', ''C:/w/B.xlsx''] =
      (''ok'', [''C:/w/A.xlsx'', ''C:/w/B.xlsx''])"
    by (simp add: demo_select_all_def)
  from load_session_checks_path_existence_only [OF refl f, where rows = demo_session_rows
      and truthy = demo_truthy and path_exists = demo_exists and dialog = demo_select_all
      and valid = "[''C:/w/A.xlsx'', ''C:/w/B.xlsx'']"] demo_valid(1) d
  have "load_session [] ''s.xlsx'' True (Some demo_session_rows) demo_truthy demo_exists
      demo_select_all = LoadRows (filter (row_is_valid demo_truthy demo_exists) demo_session_rows)"
    by simp
  then have 1: "load_session [] ''s.xlsx'' True (Some demo_session_rows) demo_truthy demo_exists
      demo_select_all =
      LoadRows [[''C:/w/A.xlsx'', ''Sheet1'', ''$A$1''],
                [''C:/w/B.xlsx'', ''!!'', ''no cell'', ''extra'']]"
    by (simp only: demo_valid_rows)
  from load_session_checks_path_existence_only [OF refl f, where rows = demo_stale_rows
      and truthy = demo_truthy and path_exists = demo_exists and dialog = demo_select_all
      and valid = "[]"] demo_valid(2)
  have 2: "load_session [] ''s.xlsx'' True (Some demo_stale_rows) demo_truthy demo_exists
      demo_select_all = WarnNoValidPaths"
    and 3: "open_attempts (load_session [] ''s.xlsx'' True (Some demo_stale_rows) demo_truthy
      demo_exists demo_select_all) = []"
    by (simp_all add: open_attempts_def)
  have tot: "\<forall>r \<in> set demo_session_rows. r \<noteq> [] \<and> demo_truthy (hd r) \<longrightarrow>
      (\<exists>b. demo_exists (hd r) = Inr b)"
    by (simp add: demo_exists_def)
  from load_session_checks_path_existence_only [OF refl f, where rows = demo_session_rows
      and truthy = demo_truthy and path_exists = demo_exists and dialog = demo_select_all] tot
  have "valid_file_paths demo_truthy demo_exists demo_session_rows =
      Inr (map hd (filter (row_is_valid demo_truthy demo_exists) demo_session_rows))"
    by blast
  then have 4: "valid_file_paths demo_truthy demo_exists demo_session_rows =
      Inr (map hd [[''C:/w/A.xlsx'', ''Sheet1'', ''$A$1''],
                   [''C:/w/B.xlsx'', ''!!'', ''no cell'', ''extra'']])"
    by (simp only: demo_valid_rows)
  from f demo_valid d 1 2 3 4 show ?thesis by blast
qed

subsection \<open>Saving with retries\<close>

lemma save_with_retry_discipline:
  "save_with_retry env name st =
     (st\<lparr>events := events st @ fst (retry_discipline (save_outcome env) name (saves st)),
         saves := saves st +
           length (filter is_save (fst (retry_discipline (save_outcome env) name (saves st))))\<rparr>,
      snd (retry_discipline (save_outcome env) name (saves st)))"
proof -
  have r: "[0..<max_retries] = [0, 1, 2]"
    by (simp add: max_retries_def upt_rec)
  show ?thesis
    unfolding save_with_retry_def r
    by (simp add: retry_discipline_def emit_def max_retries_def Let_def split: option.splits)
qed

lemma retry_discipline_shape:
  "length (filter is_save (fst (retry_discipline outcome name k))) \<in> {1, 2, 3} \<and>
   Suc (length (filter is_sleep (fst (retry_discipline outcome name k)))) =
     length (filter is_save (fst (retry_discipline outcome name k))) \<and>
   (\<forall>ev \<in> set (fst (retry_discipline outcome name k)). is_sleep ev \<longrightarrow> ev = Sleep (1 / 10)) \<and>
   (\<forall>e. snd (retry_discipline outcome name k) = Some e \<longleftrightarrow>
      outcome k \<noteq> None \<and> outcome (k + 1) \<noteq> None \<and> outcome (k + 2) = Some e)"
  by (auto simp: retry_discipline_def split: option.splits)

lemma find_workbook_exact:
  "find_workbook wbs name = Inr True \<Longrightarrow> Inr name \<in> set wbs"
  by (induction wbs name rule: find_workbook.induct) (auto split: if_splits)

lemma find_workbook_readable:
  "\<forall>w \<in> set wbs. \<exists>n. w = Inr n \<Longrightarrow> find_workbook wbs name = Inr (Inr name \<in> set wbs)"
  by (induction wbs name rule: find_workbook.induct) auto

lemma events_emit [simp]: "events (emit evs st) = events st @ evs"
  and saves_emit [simp]: "saves (emit evs st) = saves st"
  and closes_emit [simp]: "closes (emit evs st) = closes st"
  and workbooks_emit [simp]: "workbooks (emit evs st) = workbooks st"
  by (simp_all add: emit_def)

lemma retry_discipline_no_turn:
  "filter (\<lambda>ev. ev = UsedTime) (fst (retry_discipline outcome name k)) = []"
  by (simp add: retry_discipline_def split: option.splits)

lemma save_workbook_calls:
  "filter is_call (events (save_workbook env total_count idx (name, path, sheet, cell_addr) st)) =
     filter is_call (events st) @
     (if find_workbook (workbooks st) name = Inr True
      then filter is_call (fst (retry_discipline (save_outcome env) name (saves st)))
      else [])"
proof (cases "find_workbook (workbooks st) name")
  case (Inl err)
  then show ?thesis
    by (simp add: save_workbook_def Let_def save_with_retry_discipline)
next
  case (Inr found)
  show ?thesis
  proof (cases found)
    case False
    with Inr show ?thesis
      by (simp add: save_workbook_def Let_def save_with_retry_discipline)
  next
    case True
    show ?thesis
    proof (cases "snd (retry_discipline (save_outcome env) name (saves st))")
      case None
      with Inr True show ?thesis
        by (simp add: save_workbook_def Let_def save_with_retry_discipline)
    next
      case (Some err)
      with Inr True show ?thesis
        by (simp add: save_workbook_def Let_def save_with_retry_discipline)
    qed
  qed
qed

lemma save_and_close_workbook_calls:
  "filter is_call (events (save_and_close_workbook env total_count idx (name, path, sheet, cell_addr) st)) =
     filter is_call (events st) @
     (if find_workbook (workbooks st) name = Inr True
      then filter is_call (fst (retry_discipline (save_outcome env) name (saves st))) @
           (if snd (retry_discipline (save_outcome env) name (saves st)) = None
            then [Close name] else [])
      else [])"
proof (cases "find_workbook (workbooks st) name")
  case (Inl err)
  then show ?thesis
    by (simp add: save_and_close_workbook_def Let_def save_with_retry_discipline)
next
  case (Inr found)
  show ?thesis
  proof (cases found)
    case False
    with Inr show ?thesis
      by (simp add: save_and_close_workbook_def Let_def save_with_retry_discipline)
  next
    case True
    show ?thesis
    proof (cases "snd (retry_discipline (save_outcome env) name (saves st))")
      case None
      show ?thesis
      proof (cases "close_outcome env (closes st)")
        case c: None
        with None Inr True show ?thesis
          by (simp add: save_and_close_workbook_def Let_def save_with_retry_discipline)
      next
        case c: (Some ce)
        with None Inr True show ?thesis
          by (simp add: save_and_close_workbook_def Let_def save_with_retry_discipline)
      qed
    next
      case (Some err)
      with Inr True show ?thesis
        by (simp add: save_and_close_workbook_def Let_def save_with_retry_discipline)
    qed
  qed
qed

lemma save_workbook_reports:
  "find_workbook (workbooks st) name = Inr True \<Longrightarrow>
   snd (retry_discipline (save_outcome env) name (saves st)) = Some e \<Longrightarrow>
   Print (''  '' @ progress idx total_count @ '' Failed to save: '' @ name @ '' ('' @ e @ '')'')
     \<in> set (events (save_workbook env total_count idx (name, path, sheet, cell_addr) st))"
  by (simp add: save_workbook_def Let_def save_with_retry_discipline)

lemma save_and_close_workbook_reports:
  "find_workbook (workbooks st) name = Inr True \<Longrightarrow>
   snd (retry_discipline (save_outcome env) name (saves st)) = Some e \<Longrightarrow>
   Print (''  '' @ progress idx total_count @ '' Failed to save/close: '' @ name @ '' ('' @ e @ '')'')
     \<in> set (events (save_and_close_workbook env total_count idx (name, path, sheet, cell_addr) st))"
  by (simp add: save_and_close_workbook_def Let_def save_with_retry_discipline)

lemma save_workbook_turn:
  "length (filter (\<lambda>ev. ev = UsedTime)
       (events (save_workbook env total_count idx (name, path, sheet, cell_addr) st))) =
     Suc (length (filter (\<lambda>ev. ev = UsedTime) (events st)))"
proof (cases "find_workbook (workbooks st) name")
  case (Inl err)
  then show ?thesis
    by (simp add: save_workbook_def Let_def save_with_retry_discipline retry_discipline_no_turn)
next
  case (Inr found)
  show ?thesis
  proof (cases found)
    case False
    with Inr show ?thesis
      by (simp add: save_workbook_def Let_def save_with_retry_discipline retry_discipline_no_turn)
  next
    case True
    show ?thesis
    proof (cases "snd (retry_discipline (save_outcome env) name (saves st))")
      case None
      with Inr True show ?thesis
        by (simp add: save_workbook_def Let_def save_with_retry_discipline retry_discipline_no_turn)
    next
      case (Some err)
      with Inr True show ?thesis
        by (simp add: save_workbook_def Let_def save_with_retry_discipline retry_discipline_no_turn)
    qed
  qed
qed

lemma save_and_close_workbook_turn:
  "length (filter (\<lambda>ev. ev = UsedTime)
       (events (save_and_close_workbook env total_count idx (name, path, sheet, cell_addr) st))) =
     Suc (length (filter (\<lambda>ev. ev = UsedTime) (events st)))"
proof (cases "find_workbook (workbooks st) name")
  case (Inl err)
  then show ?thesis
    by (simp add: save_and_close_workbook_def Let_def save_with_retry_discipline retry_discipline_no_turn)
next
  case (Inr found)
  show ?thesis
  proof (cases found)
    case False
    with Inr show ?thesis
      by (simp add: save_and_close_workbook_def Let_def save_with_retry_discipline retry_discipline_no_turn)
  next
    case True
    show ?thesis
    proof (cases "snd (retry_discipline (save_outcome env) name (saves st))")
      case None
      show ?thesis
      proof (cases "close_outcome env (closes st)")
        case c: None
        with None Inr True show ?thesis
          by (simp add: save_and_close_workbook_def Let_def save_with_retry_discipline retry_discipline_no_turn)
      next
        case c: (Some ce)
        with None Inr True show ?thesis
          by (simp add: save_and_close_workbook_def Let_def save_with_retry_discipline retry_discipline_no_turn)
      qed
    next
      case (Some err)
      with Inr True show ?thesis
        by (simp add: save_and_close_workbook_def Let_def save_with_retry_discipline retry_discipline_no_turn)
    qed
  qed
qed

lemma for_each_workbook_turns:
  assumes "\<And>idx selected st.
     length (filter (\<lambda>ev. ev = UsedTime) (events (body idx selected st))) =
       Suc (length (filter (\<lambda>ev. ev = UsedTime) (events st)))"
  shows "length (filter (\<lambda>ev. ev = UsedTime) (events (for_each_workbook body idx sel st))) =
     length (filter (\<lambda>ev. ev = UsedTime) (events st)) + length sel"
  by (induction sel arbitrary: idx st) (simp_all add: assms)

lemma save_workbooks_impl_turns:
  assumes "dispatch_error env = None"
  shows "length (filter (\<lambda>ev. ev = UsedTime) (events (save_workbooks_impl env sel st))) =
     length (filter (\<lambda>ev. ev = UsedTime) (events st)) + length sel"
proof -
  have "length (filter (\<lambda>ev. ev = UsedTime)
      (events (save_workbook env (length sel) idx selected s))) =
      Suc (length (filter (\<lambda>ev. ev = UsedTime) (events s)))" for idx selected s
    by (cases selected) (simp only: save_workbook_turn)
  from for_each_workbook_turns [of "save_workbook env (length sel)", OF this] assms
  show ?thesis by (simp add: save_workbooks_impl_def Let_def)
qed

lemma save_and_close_impl_turns:
  assumes "dispatch_error env = None"
  shows "length (filter (\<lambda>ev. ev = UsedTime) (events (save_and_close_impl env sel st))) =
     length (filter (\<lambda>ev. ev = UsedTime) (events st)) + length sel"
proof -
  have "length (filter (\<lambda>ev. ev = UsedTime)
      (events (save_and_close_workbook env (length sel) idx selected s))) =
      Suc (length (filter (\<lambda>ev. ev = UsedTime) (events s)))" for idx selected s
    by (cases selected) (simp only: save_and_close_workbook_turn)
  from for_each_workbook_turns [of "save_and_close_workbook env (length sel)", OF this] assms
  show ?thesis by (simp add: save_and_close_impl_def Let_def)
qed

text \<open>
  Claim C6. Saving a workbook uses a retry with a fixed count and a sleep. The loop
  around \<open>Save\<close> does what the retry discipline says: at most three attempts, a sleep
  of 0.1 seconds after a failed attempt that is not the third, no attempt after the
  first success, and the exception of the third attempt, and only that, leaves the
  loop. The workbook is the first one of the collection with exactly the name selected.
  In \<open>_save_workbooks_impl\<close> and in \<open>_save_and_close_impl\<close> the calls made for one
  selected workbook are those of the loop (and one \<open>Close\<close> after a save that
  succeeded); the exception is reported in the line of that workbook, and every selected
  workbook gets its turn.
\<close>

theorem save_retries_at_most_three_times:
  assumes "rd = retry_discipline (save_outcome env) name (saves st)"
  shows "save_with_retry env name st =
       (st\<lparr>events := events st @ fst rd,
           saves := saves st + length (filter is_save (fst rd))\<rparr>, snd rd) \<and>
     length (filter is_save (fst rd)) \<in> {1, 2, 3} \<and>
     Suc (length (filter is_sleep (fst rd))) = length (filter is_save (fst rd)) \<and>
     (\<forall>ev \<in> set (fst rd). is_sleep ev \<longrightarrow> ev = Sleep (1 / 10)) \<and>
     (\<forall>e. snd rd = Some e \<longleftrightarrow>
        save_outcome env (saves st) \<noteq> None \<and> save_outcome env (saves st + 1) \<noteq> None \<and>
        save_outcome env (saves st + 2) = Some e) \<and>
     (save_outcome env (saves st) = None \<longrightarrow> fst rd = [Save name]) \<and>
     (save_outcome env (saves st) \<noteq> None \<and> save_outcome env (saves st + 1) = None \<longrightarrow>
        fst rd = [Save name, Print (retry_message 0), Sleep (1 / 10), Save name]) \<and>
     (save_outcome env (saves st) \<noteq> None \<and> save_outcome env (saves st + 1) \<noteq> None \<longrightarrow>
        fst rd = [Save name, Print (retry_message 0), Sleep (1 / 10),
                  Save name, Print (retry_message 1), Sleep (1 / 10), Save name]) \<and>
     (find_workbook (workbooks st) name = Inr True \<longrightarrow> Inr name \<in> set (workbooks st)) \<and>
     ((\<forall>w \<in> set (workbooks st). \<exists>n. w = Inr n) \<longrightarrow>
        find_workbook (workbooks st) name = Inr (Inr name \<in> set (workbooks st))) \<and>
     filter is_call (events (save_workbook env total_count idx (name, path, sheet, cell_addr) st)) =
       filter is_call (events st) @
       (if find_workbook (workbooks st) name = Inr True then filter is_call (fst rd) else []) \<and>
     filter is_call
       (events (save_and_close_workbook env total_count idx (name, path, sheet, cell_addr) st)) =
       filter is_call (events st) @
       (if find_workbook (workbooks st) name = Inr True
        then filter is_call (fst rd) @ (if snd rd = None then [Close name] else [])
        else []) \<and>
     (find_workbook (workbooks st) name = Inr True \<and> snd rd = Some e \<longrightarrow>
        Print (''  '' @ progress idx total_count @ '' Failed to save: '' @ name @ '' ('' @ e @ '')'')
          \<in> set (events (save_workbook env total_count idx (name, path, sheet, cell_addr) st)) \<and>
        Print (''  '' @ progress idx total_count @ '' Failed to save/close: '' @ name @
                 '' ('' @ e @ '')'')
          \<in> set (events (save_and_close_workbook env total_count idx
                 (name, path, sheet, cell_addr) st))) \<and>
     (dispatch_error env = None \<longrightarrow>
        length (filter (\<lambda>ev. ev = UsedTime) (events (save_workbooks_impl env sel st))) =
          length (filter (\<lambda>ev. ev = UsedTime) (events st)) + length sel \<and>
        length (filter (\<lambda>ev. ev = UsedTime) (events (save_and_close_impl env sel st))) =
          length (filter (\<lambda>ev. ev = UsedTime) (events st)) + length sel)"
proof -
  note s = retry_discipline_shape [of "save_outcome env" name "saves st", folded assms]
  have 1: "save_with_retry env name st =
       (st\<lparr>events := events st @ fst rd,
           saves := saves st + length (filter is_save (fst rd))\<rparr>, snd rd)"
    unfolding assms by (rule save_with_retry_discipline)
  from s have 2: "length (filter is_save (fst rd)) \<in> {1, 2, 3}"
    and 3: "Suc (length (filter is_sleep (fst rd))) = length (filter is_save (fst rd))"
    and 4: "\<forall>ev \<in> set (fst rd). is_sleep ev \<longrightarrow> ev = Sleep (1 / 10)"
    and 5: "\<forall>e. snd rd = Some e \<longleftrightarrow>
        save_outcome env (saves st) \<noteq> None \<and> save_outcome env (saves st + 1) \<noteq> None \<and>
        save_outcome env (saves st + 2) = Some e"
    by blast+
  have 6: "save_outcome env (saves st) = None \<longrightarrow> fst rd = [Save name]"
    and 7: "save_outcome env (saves st) \<noteq> None \<and> save_outcome env (saves st + 1) = None \<longrightarrow>
        fst rd = [Save name, Print (retry_message 0), Sleep (1 / 10), Save name]"
    and 8: "save_outcome env (saves st) \<noteq> None \<and> save_outcome env (saves st + 1) \<noteq> None \<longrightarrow>
        fst rd = [Save name, Print (retry_message 0), Sleep (1 / 10),
                  Save name, Print (retry_message 1), Sleep (1 / 10), Save name]"
    unfolding assms by (auto simp: retry_discipline_def)
  have 9: "find_workbook (workbooks st) name = Inr True \<longrightarrow> Inr name \<in> set (workbooks st)"
    by (simp add: find_workbook_exact)
  have 10: "(\<forall>w \<in> set (workbooks st). \<exists>n. w = Inr n) \<longrightarrow>
        find_workbook (workbooks st) name = Inr (Inr name \<in> set (workbooks st))"
    using find_workbook_readable by blast
  note 11 = save_workbook_calls [of env total_count idx name path sheet cell_addr st, folded assms]
  note 12 = save_and_close_workbook_calls
    [of env total_count idx name path sheet cell_addr st, folded assms]
  have 13: "find_workbook (workbooks st) name = Inr True \<and> snd rd = Some e \<longrightarrow>
        Print (''  '' @ progress idx total_count @ '' Failed to save: '' @ name @ '' ('' @ e @ '')'')
          \<in> set (events (save_workbook env total_count idx (name, path, sheet, cell_addr) st)) \<and>
        Print (''  '' @ progress idx total_count @ '' Failed to save/close: '' @ name @
                 '' ('' @ e @ '')'')
          \<in> set (events (save_and_close_workbook env total_count idx
                 (name, path, sheet, cell_addr) st))"
    unfolding assms using save_workbook_reports save_and_close_workbook_reports by blast
  have 14: "dispatch_error env = None \<longrightarrow>
        length (filter (\<lambda>ev. ev = UsedTime) (events (save_workbooks_impl env sel st))) =
          length (filter (\<lambda>ev. ev = UsedTime) (events st)) + length sel \<and>
        length (filter (\<lambda>ev. ev = UsedTime) (events (save_and_close_impl env sel st))) =
          length (filter (\<lambda>ev. ev = UsedTime) (events st)) + length sel"
    using save_workbooks_impl_turns save_and_close_impl_turns by blast
  from 1 2 3 4 5 6 7 8 9 10 11 12 13 14 show ?thesis by blast
qed

lemma demo_retry:
  "retry_discipline (save_outcome demo_env) ''A.xlsx'' (saves demo_run_start) =
     ([Save ''A.xlsx'', Print (retry_message 0), Sleep (1 / 10),
       Save ''A.xlsx'', Print (retry_message 1), Sleep (1 / 10), Save ''A.xlsx''], None)"
  "retry_discipline (save_outcome demo_env_never) ''A.xlsx'' (saves demo_run_start) =
     ([Save ''A.xlsx'', Print (retry_message 0), Sleep (1 / 10),
       Save ''A.xlsx'', Print (retry_message 1), Sleep (1 / 10), Save ''A.xlsx''],
      Some ''locked'')"
  by (simp_all add: retry_discipline_def demo_env_def demo_env_never_def demo_run_start_def)

theorem save_retries_at_most_three_times_witness:
  "find_workbook (workbooks demo_run_start) ''A.xlsx'' = Inr True \<and>
   find_workbook (workbooks demo_run_start) ''a.xlsx'' = Inr False \<and>
   dispatch_error demo_env = None \<and>
   filter is_call (events (save_workbook demo_env 2 1 (''A.xlsx'', [], [], []) demo_run_start)) =
     [Save ''A.xlsx'', Sleep (1 / 10), Save ''A.xlsx'', Sleep (1 / 10), Save ''A.xlsx''] \<and>
   filter is_call
     (events (save_and_close_workbook demo_env 2 1 (''A.xlsx'', [], [], []) demo_run_start)) =
     [Save ''A.xlsx'', Sleep (1 / 10), Save ''A.xlsx'', Sleep (1 / 10), Save ''A.xlsx'',
      Close ''A.xlsx''] \<and>
   filter is_call
     (events (save_and_close_workbook demo_env_never 2 1 (''A.xlsx'', [], [], []) demo_run_start)) =
     [Save ''A.xlsx'', Sleep (1 / 10), Save ''A.xlsx'', Sleep (1 / 10), Save ''A.xlsx''] \<and>
   Print (''  '' @ progress 1 2 @ '' Failed to save: A.xlsx (locked)'')
     \<in> set (events (save_workbook demo_env_never 2 1 (''A.xlsx'', [], [], []) demo_run_start)) \<and>
   filter is_call (events (save_workbook demo_env 2 2 (''a.xlsx'', [], [], []) demo_run_start)) = [] \<and>
   length (filter (\<lambda>ev. ev = UsedTime) (events (save_workbooks_impl demo_env_never
     [(''A.xlsx'', [], [], []), (''B.xlsx'', [], [], [])] demo_run_start))) = 2"
proof -
  have f: "find_workbook (workbooks demo_run_start) ''A.xlsx'' = Inr True"
    and g: "\<forall>w \<in> set (workbooks demo_run_start). \<exists>n. w = Inr n"
    and nf: "find_workbook (workbooks demo_run_start) ''a.xlsx'' = Inr False"
    and d: "dispatch_error demo_env = None" "dispatch_error demo_env_never = None"
    and e: "events demo_run_start = []"
    by (simp_all add: demo_run_start_def demo_env_def demo_env_never_def)
  note a = save_retries_at_most_three_times [OF refl, where env = demo_env and st = demo_run_start
      and name = "''A.xlsx''" and total_count = 2 and idx = 1 and path = "[]" and sheet = "[]"
      and cell_addr = "[]"]
  note b = save_retries_at_most_three_times [OF refl, where env = demo_env_never
      and st = demo_run_start and name = "''A.xlsx''" and total_count = 2 and idx = 1
      and path = "[]" and sheet = "[]" and cell_addr = "[]" and e = "''locked''"
      and sel = "[(''A.xlsx'', [], [], []), (''B.xlsx'', [], [], [])]"]
  note c = save_retries_at_most_three_times [OF refl, where env = demo_env and st = demo_run_start
      and name = "''a.xlsx''" and total_count = 2 and idx = 2 and path = "[]" and sheet = "[]"
      and cell_addr = "[]"]
  from a f e have 1: "filter is_call
      (events (save_workbook demo_env 2 1 (''A.xlsx'', [], [], []) demo_run_start)) =
      [Save ''A.xlsx'', Sleep (1 / 10), Save ''A.xlsx'', Sleep (1 / 10), Save ''A.xlsx'']"
    by (simp add: demo_retry)
  from a f e have 2: "filter is_call
      (events (save_and_close_workbook demo_env 2 1 (''A.xlsx'', [], [], []) demo_run_start)) =
      [Save ''A.xlsx'', Sleep (1 / 10), Save ''A.xlsx'', Sleep (1 / 10), Save ''A.xlsx'',
       Close ''A.xlsx'']"
    by (simp add: demo_retry)
  from b f e have 3: "filter is_call
      (events (save_and_close_workbook demo_env_never 2 1 (''A.xlsx'', [], [], []) demo_run_start)) =
      [Save ''A.xlsx'', Sleep (1 / 10), Save ''A.xlsx'', Sleep (1 / 10), Save ''A.xlsx'']"
    by (simp add: demo_retry)
  from b f have 4: "Print (''  '' @ progress 1 2 @ '' Failed to save: A.xlsx (locked)'')
      \<in> set (events (save_workbook demo_env_never 2 1 (''A.xlsx'', [], [], []) demo_run_start))"
    by (simp add: demo_retry)
  from c nf e have 5: "filter is_call
      (events (save_workbook demo_env 2 2 (''a.xlsx'', [], [], []) demo_run_start)) = []"
    by simp
  from b d e have 6: "length (filter (\<lambda>ev. ev = UsedTime) (events (save_workbooks_impl demo_env_never
      [(''A.xlsx'', [], [], []), (''B.xlsx'', [], [], [])] demo_run_start))) = 2"
    by simp
  from a g have "find_workbook (workbooks demo_run_start) ''A.xlsx'' =
      Inr (Inr ''A.xlsx'' \<in> set (workbooks demo_run_start))"
    by blast
  from f nf d(1) 1 2 3 4 5 6 show ?thesis by blast
qed

end
